theory Spec2Isabelle
  imports Main
begin

section \<open>Amounts, assets and prices\<close>

text \<open>
  \<open>share_type\<close> is a checked 64-bit signed integer in the source; amounts are modelled as
  mathematical integers, and every place where the source goes through an unsigned 128-bit
  intermediate has the wrap-around written out with \<open>u128\<close>.
\<close>

type_synonym share_type = int
type_synonym asset_id_type = nat
type_synonym account_id_type = nat
type_synonym object_id_type = nat

record asset =
  amount :: share_type
  asset_id :: asset_id_type

record price =
  base :: asset
  quote :: asset

datatype error =
    Assert_failed
  | Overflow
  | Invalid_asset_price
  | Insufficient_balance
  | Margin_call_fee_negative
  | No_side_filled
  | Settle_amount_too_small
  | Black_swan_again
  | Unknown_object

definition ebind :: "error + 'a \<Rightarrow> ('a \<Rightarrow> error + 'b) \<Rightarrow> error + 'b" where
  "ebind m f = (case m of Inl e \<Rightarrow> Inl e | Inr x \<Rightarrow> f x)"

definition FC_ASSERT :: "bool \<Rightarrow> error \<Rightarrow> error + unit" where
  "FC_ASSERT c e = (if c then Inr () else Inl e)"

definition u128 :: "int \<Rightarrow> int" where
  "u128 x = x mod 2 ^ 128"

definition to_int64 :: "int \<Rightarrow> int" where
  "to_int64 x = (x + 2 ^ 63) mod 2 ^ 64 - 2 ^ 63"

definition GRAPHENE_100_PERCENT :: int where
  "GRAPHENE_100_PERCENT = 10000"

text \<open>
  Modelled from the spec: the constant \<open>GRAPHENE_MAX_SHARE_SUPPLY\<close> (the platform-wide
  ceiling \<open>MAX_SHARE_SUPPLY\<close> of section 3) is declared in a configuration header that is
  not part of the sources at hand; its value is 10^15.
\<close>

definition GRAPHENE_MAX_SHARE_SUPPLY :: int where
  "GRAPHENE_MAX_SHARE_SUPPLY = 1000000000000000"

text \<open>
  Modelled from the spec: \<open>asset * price\<close> (round down) and
  \<open>asset::multiply_and_round_up\<close> live in the protocol library, which is not part of the
  sources at hand. Section 3 and 4.1: multiplying an asset by a price produces an asset in
  the other leg of the price, through a 128-bit intermediate, rounding down or up; a result
  above \<open>MAX_SHARE_SUPPLY\<close> is an overflow error, and an asset that is in neither leg of the
  price, or a divisor that is not positive, is an error.
\<close>

definition asset_mul :: "asset \<Rightarrow> price \<Rightarrow> error + asset" where
  "asset_mul a b =
    (if asset_id a = asset_id (base b) then
       (if amount (base b) \<le> 0 then Inl Invalid_asset_price
        else
          let result = u128 (u128 (amount a) * u128 (amount (quote b))) div amount (base b)
          in if result \<le> GRAPHENE_MAX_SHARE_SUPPLY
             then Inr \<lparr>amount = result, asset_id = asset_id (quote b)\<rparr>
             else Inl Overflow)
     else if asset_id a = asset_id (quote b) then
       (if amount (quote b) \<le> 0 then Inl Invalid_asset_price
        else
          let result = u128 (u128 (amount a) * u128 (amount (base b))) div amount (quote b)
          in if result \<le> GRAPHENE_MAX_SHARE_SUPPLY
             then Inr \<lparr>amount = result, asset_id = asset_id (base b)\<rparr>
             else Inl Overflow)
     else Inl Invalid_asset_price)"

definition multiply_and_round_up :: "asset \<Rightarrow> price \<Rightarrow> error + asset" where
  "multiply_and_round_up a b =
    (if asset_id a = asset_id (base b) then
       (if amount (base b) \<le> 0 then Inl Invalid_asset_price
        else
          let result = u128 (u128 (u128 (amount a) * u128 (amount (quote b)))
                             + amount (base b) - 1) div amount (base b)
          in if result \<le> GRAPHENE_MAX_SHARE_SUPPLY
             then Inr \<lparr>amount = result, asset_id = asset_id (quote b)\<rparr>
             else Inl Overflow)
     else if asset_id a = asset_id (quote b) then
       (if amount (quote b) \<le> 0 then Inl Invalid_asset_price
        else
          let result = u128 (u128 (u128 (amount a) * u128 (amount (base b)))
                             + amount (quote b) - 1) div amount (quote b)
          in if result \<le> GRAPHENE_MAX_SHARE_SUPPLY
             then Inr \<lparr>amount = result, asset_id = asset_id (base b)\<rparr>
             else Inl Overflow)
     else Inl Invalid_asset_price)"


text \<open>
  Modelled from the spec: the remaining price operations of the protocol library (not part
  of the sources at hand). Section 3: a price is an unreduced pair, ordered by
  cross-multiplication (section 4.1), within its asset pair; \<open>~p\<close> swaps the legs;
  \<open>max\<close> and \<open>min\<close> are the sentinels of an asset pair; the null price is the
  uninitialised one; \<open>a / b\<close> builds the price with base \<open>a\<close> and quote \<open>b\<close>.
\<close>

definition price_lt :: "price \<Rightarrow> price \<Rightarrow> bool" where
  "price_lt a b =
    (if asset_id (base a) < asset_id (base b) then True
     else if asset_id (base b) < asset_id (base a) then False
     else if asset_id (quote a) < asset_id (quote b) then True
     else if asset_id (quote b) < asset_id (quote a) then False
     else amount (quote b) * amount (base a) < amount (quote a) * amount (base b))"


definition price_le :: "price \<Rightarrow> price \<Rightarrow> bool" where
  "price_le a b = (\<not> price_lt b a)"

definition price_inverse :: "price \<Rightarrow> price" where
  "price_inverse p = \<lparr>base = quote p, quote = base p\<rparr>"

definition price_max :: "asset_id_type \<Rightarrow> asset_id_type \<Rightarrow> price" where
  "price_max b q = \<lparr>base = \<lparr>amount = GRAPHENE_MAX_SHARE_SUPPLY, asset_id = b\<rparr>,
                    quote = \<lparr>amount = 1, asset_id = q\<rparr>\<rparr>"

definition price_min :: "asset_id_type \<Rightarrow> asset_id_type \<Rightarrow> price" where
  "price_min b q = \<lparr>base = \<lparr>amount = 1, asset_id = b\<rparr>,
                    quote = \<lparr>amount = GRAPHENE_MAX_SHARE_SUPPLY, asset_id = q\<rparr>\<rparr>"

definition null_price :: price where
  "null_price = \<lparr>base = \<lparr>amount = 0, asset_id = 0\<rparr>, quote = \<lparr>amount = 0, asset_id = 0\<rparr>\<rparr>"

definition is_null :: "price \<Rightarrow> bool" where
  "is_null p = (p = null_price)"

definition asset_div :: "asset \<Rightarrow> asset \<Rightarrow> error + price" where
  "asset_div a b =
    (if asset_id a = asset_id b then Inl Invalid_asset_price else Inr \<lparr>base = a, quote = b\<rparr>)"

text \<open>The core asset is \<open>asset_id_type()\<close>, instance 0.\<close>

definition core_asset :: asset_id_type where
  "core_asset = 0"

text \<open>
  Modelled from the spec: the comparison and arithmetic operators of \<open>asset\<close> (protocol
  library, not part of the sources at hand). An asset is a typed amount (section 3): the
  operators work on the amounts and require both operands to be of the same asset.
\<close>

definition asset_lt :: "asset \<Rightarrow> asset \<Rightarrow> error + bool" where
  "asset_lt a b =
    (if asset_id a = asset_id b then Inr (amount a < amount b) else Inl Assert_failed)"

definition asset_le :: "asset \<Rightarrow> asset \<Rightarrow> error + bool" where
  "asset_le a b =
    (if asset_id a = asset_id b then Inr (amount a \<le> amount b) else Inl Assert_failed)"

definition asset_sub :: "asset \<Rightarrow> asset \<Rightarrow> error + asset" where
  "asset_sub a b =
    (if asset_id a = asset_id b then Inr (a\<lparr>amount := amount a - amount b\<rparr>)
     else Inl Assert_failed)"

definition asset_add :: "asset \<Rightarrow> asset \<Rightarrow> error + asset" where
  "asset_add a b =
    (if asset_id a = asset_id b then Inr (a\<lparr>amount := amount a + amount b\<rparr>)
     else Inl Assert_failed)"

section \<open>calculate_percent\<close>

definition calculate_percent :: "share_type \<Rightarrow> nat \<Rightarrow> error + share_type" where
  "calculate_percent v percent =
    (let a = u128 v;
         a = u128 (a * int percent);
         a = a div GRAPHENE_100_PERCENT
     in ebind (FC_ASSERT (a \<le> GRAPHENE_MAX_SHARE_SUPPLY) Overflow) (\<lambda>_. Inr (to_int64 a)))"


section \<open>Objects of the store\<close>

text \<open>
  The object declarations are not part of the sources at hand; the records follow section 3
  and the fields the functions below read and write. Fields no function below uses
  (expiration, settlement date, symbol, precision, issuer) are left out.
\<close>

record limit_order_object =
  limit_id :: object_id_type
  seller :: account_id_type
  for_sale :: share_type
  sell_price :: price
  deferred_fee :: share_type
  deferred_paid_fee :: asset

definition amount_for_sale :: "limit_order_object \<Rightarrow> asset" where
  "amount_for_sale b = \<lparr>amount = for_sale b, asset_id = asset_id (base (sell_price b))\<rparr>"

definition sell_asset_id :: "limit_order_object \<Rightarrow> asset_id_type" where
  "sell_asset_id b = asset_id (base (sell_price b))"

definition receive_asset_id :: "limit_order_object \<Rightarrow> asset_id_type" where
  "receive_asset_id b = asset_id (quote (sell_price b))"

definition amount_to_receive :: "limit_order_object \<Rightarrow> error + asset" where
  "amount_to_receive b = asset_mul (amount_for_sale b) (sell_price b)"

record call_order_object =
  call_id :: object_id_type
  borrower :: account_id_type
  collateral :: share_type
  debt :: share_type
  collateral_type :: asset_id_type
  debt_type :: asset_id_type
  target_collateral_ratio :: "nat option"

definition get_debt :: "call_order_object \<Rightarrow> asset" where
  "get_debt c = \<lparr>amount = debt c, asset_id = debt_type c\<rparr>"

definition get_collateral :: "call_order_object \<Rightarrow> asset" where
  "get_collateral c = \<lparr>amount = collateral c, asset_id = collateral_type c\<rparr>"

definition collateralization :: "call_order_object \<Rightarrow> price" where
  "collateralization c = \<lparr>base = get_collateral c, quote = get_debt c\<rparr>"

record force_settlement_object =
  settle_id :: object_id_type
  owner :: account_id_type
  balance :: asset

record asset_options =
  charges_market_fees :: bool
  market_fee_percent :: nat
  max_market_fee :: share_type
  taker_fee_percent :: "nat option"
  reward_percent :: "nat option"
  whitelist_market_fee_sharing :: "account_id_type list option"

record asset_object =
  asset_oid :: asset_id_type
  options :: asset_options
  dynamic_asset_data_id :: object_id_type
  bitasset_data_id :: "object_id_type option"

definition is_market_issued :: "asset_object \<Rightarrow> bool" where
  "is_market_issued a = (bitasset_data_id a \<noteq> None)"

record asset_dynamic_data_object =
  current_supply :: share_type
  fee_pool :: share_type
  accumulated_fees :: share_type
  accumulated_collateral_fees :: share_type

record price_feed =
  feed_settlement_price :: price
  maintenance_collateral_ratio :: nat
  maximum_short_squeeze_ratio :: nat

record bitasset_options =
  short_backing_asset :: asset_id_type
  margin_call_fee_ratio :: "nat option"
  force_settle_fee_percent :: "nat option"

record asset_bitasset_data_object =
  bitasset_opts :: bitasset_options
  current_feed :: price_feed
  current_maintenance_collateralization :: price
  settlement_price :: price
  settlement_fund :: share_type
  is_prediction_market :: bool

definition has_settlement :: "asset_bitasset_data_object \<Rightarrow> bool" where
  "has_settlement b = (\<not> is_null (settlement_price b))"

record account_object =
  registrar :: account_id_type
  referrer :: account_id_type
  referrer_rewards_percentage :: nat

record account_statistics_object =
  total_core_in_orders :: share_type
  pending_fees :: share_type
  pending_vested_fees :: share_type

datatype object_ref = Limit_order object_id_type | Call_order object_id_type
  | Force_settlement object_id_type

datatype operation =
    Fill_order object_ref account_id_type asset asset asset price bool
  | Limit_order_cancel object_id_type account_id_type asset
  | Asset_settle_cancel object_id_type account_id_type asset

text \<open>
  The store. Orders are kept as lists of objects with unique ids; assets, accounts and their
  satellite objects are looked up by id. \<open>balances\<close> and \<open>market_fee_vesting\<close> hold the
  account balances and the market-fee vesting balances per account and asset.
  \<open>authorized_asset\<close> stands for the outcome of \<open>is_authorized_asset\<close> (white- and
  blacklists, an external collaborator), \<open>cancel_fee\<close> for what the current fee schedule
  charges for a \<open>limit_order_cancel\<close>; the three fields after it are the global
  parameters the functions below read; \<open>next_settle_id\<close> is the id the store gives to the
  next force settlement object it creates.
\<close>

record database =
  limit_orders :: "limit_order_object list"
  call_orders :: "call_order_object list"
  settle_orders :: "force_settlement_object list"
  assets :: "asset_id_type \<rightharpoonup> asset_object"
  dynamic_data :: "object_id_type \<rightharpoonup> asset_dynamic_data_object"
  bitasset_data :: "object_id_type \<rightharpoonup> asset_bitasset_data_object"
  accounts :: "account_id_type \<rightharpoonup> account_object"
  account_stats :: "account_id_type \<rightharpoonup> account_statistics_object"
  balances :: "account_id_type \<Rightarrow> asset_id_type \<Rightarrow> share_type"
  market_fee_vesting :: "account_id_type \<Rightarrow> asset_id_type \<Rightarrow> share_type"
  applied_operations :: "operation list"
  authorized_asset :: "account_id_type \<Rightarrow> asset_id_type \<Rightarrow> bool"
  cancel_fee :: share_type
  maker_fee_discount_percent :: nat
  market_fee_network_percent :: nat
  cashback_vesting_threshold :: share_type
  next_settle_id :: object_id_type

definition GRAPHENE_COMMITTEE_ACCOUNT :: account_id_type where
  "GRAPHENE_COMMITTEE_ACCOUNT = 0"

definition GRAPHENE_TEMP_ACCOUNT :: account_id_type where
  "GRAPHENE_TEMP_ACCOUNT = 4"

subsection \<open>Lookup, modify, remove\<close>

definition lookup :: "('k \<rightharpoonup> 'v) \<Rightarrow> 'k \<Rightarrow> error + 'v" where
  "lookup m k = (case m k of None \<Rightarrow> Inl Unknown_object | Some v \<Rightarrow> Inr v)"

definition find_obj :: "('a \<Rightarrow> object_id_type) \<Rightarrow> 'a list \<Rightarrow> object_id_type \<Rightarrow> error + 'a" where
  "find_obj key xs i =
    (case find (\<lambda>x. key x = i) xs of None \<Rightarrow> Inl Unknown_object | Some x \<Rightarrow> Inr x)"

definition modify_obj :: "('a \<Rightarrow> object_id_type) \<Rightarrow> object_id_type \<Rightarrow> ('a \<Rightarrow> 'a) \<Rightarrow> 'a list \<Rightarrow> 'a list" where
  "modify_obj key i f xs = map (\<lambda>x. if key x = i then f x else x) xs"

definition remove_obj :: "('a \<Rightarrow> object_id_type) \<Rightarrow> object_id_type \<Rightarrow> 'a list \<Rightarrow> 'a list" where
  "remove_obj key i xs = filter (\<lambda>x. key x \<noteq> i) xs"

definition get_asset :: "database \<Rightarrow> asset_id_type \<Rightarrow> error + asset_object" where
  "get_asset db a = lookup (assets db) a"

definition get_dynamic_data :: "database \<Rightarrow> asset_object \<Rightarrow> error + asset_dynamic_data_object" where
  "get_dynamic_data db a = lookup (dynamic_data db) (dynamic_asset_data_id a)"

definition get_bitasset_data :: "database \<Rightarrow> asset_object \<Rightarrow> error + asset_bitasset_data_object" where
  "get_bitasset_data db a =
    (case bitasset_data_id a of None \<Rightarrow> Inl Assert_failed
     | Some i \<Rightarrow> lookup (bitasset_data db) i)"

definition modify_dynamic_data ::
  "database \<Rightarrow> asset_object \<Rightarrow> (asset_dynamic_data_object \<Rightarrow> asset_dynamic_data_object) \<Rightarrow> error + database" where
  "modify_dynamic_data db a f =
    ebind (get_dynamic_data db a) (\<lambda>d.
      Inr (db\<lparr>dynamic_data := (dynamic_data db)(dynamic_asset_data_id a \<mapsto> f d)\<rparr>))"

definition modify_bitasset_data ::
  "database \<Rightarrow> asset_object \<Rightarrow> (asset_bitasset_data_object \<Rightarrow> asset_bitasset_data_object) \<Rightarrow> error + database" where
  "modify_bitasset_data db a f =
    (case bitasset_data_id a of None \<Rightarrow> Inl Assert_failed
     | Some i \<Rightarrow> ebind (lookup (bitasset_data db) i) (\<lambda>b.
         Inr (db\<lparr>bitasset_data := (bitasset_data db)(i \<mapsto> f b)\<rparr>)))"

definition modify_account_stats ::
  "database \<Rightarrow> account_id_type \<Rightarrow> (account_statistics_object \<Rightarrow> account_statistics_object) \<Rightarrow> error + database" where
  "modify_account_stats db a f =
    ebind (lookup (account_stats db) a) (\<lambda>st.
      Inr (db\<lparr>account_stats := (account_stats db)(a \<mapsto> f st)\<rparr>))"

definition push_applied_operation :: "database \<Rightarrow> operation \<Rightarrow> database" where
  "push_applied_operation db vop = db\<lparr>applied_operations := applied_operations db @ [vop]\<rparr>"

text \<open>
  Modelled from the spec: \<open>adjust_balance\<close>, \<open>deposit_market_fee_vesting_balance\<close>,
  \<open>account_statistics_object::pay_fee\<close> and \<open>asset_object::accumulate_fee\<close> are defined
  in files that are not part of the sources at hand. A balance cannot go below zero
  (section 7, insufficient balance); market-fee rewards are deposited into market-fee vesting
  balances (section 4.3); a core fee paid to the statistics goes to the pending vesting fee
  bucket, split by the cashback threshold (sections 3, 4.5); a fee accumulated in an asset
  goes to its \<open>accumulated_fees\<close> when it is denominated in the asset itself and to its
  \<open>accumulated_collateral_fees\<close> when it is denominated in the backing asset (section 3).
\<close>

definition adjust_balance :: "database \<Rightarrow> account_id_type \<Rightarrow> asset \<Rightarrow> error + database" where
  "adjust_balance db account delta =
    (if amount delta = 0 then Inr db
     else if amount delta < 0 \<and> balances db account (asset_id delta) < - amount delta
       then Inl Insufficient_balance
     else Inr (db\<lparr>balances := (balances db)(account :=
            (balances db account)(asset_id delta := balances db account (asset_id delta) + amount delta))\<rparr>))"

definition deposit_market_fee_vesting_balance :: "database \<Rightarrow> account_id_type \<Rightarrow> asset \<Rightarrow> database" where
  "deposit_market_fee_vesting_balance db account a =
    db\<lparr>market_fee_vesting := (market_fee_vesting db)(account :=
          (market_fee_vesting db account)(asset_id a := market_fee_vesting db account (asset_id a) + amount a))\<rparr>"

definition pay_fee :: "share_type \<Rightarrow> share_type \<Rightarrow> account_statistics_object \<Rightarrow> account_statistics_object" where
  "pay_fee core_fee threshold st =
    (if core_fee > threshold then st\<lparr>pending_fees := pending_fees st + core_fee\<rparr>
     else st\<lparr>pending_vested_fees := pending_vested_fees st + core_fee\<rparr>)"

definition accumulate_fee :: "database \<Rightarrow> asset_object \<Rightarrow> asset \<Rightarrow> error + database" where
  "accumulate_fee db a fee =
    (if amount fee = 0 then Inr db
     else ebind (FC_ASSERT (amount fee \<ge> 0) Assert_failed) (\<lambda>_.
       if asset_id fee = asset_oid a then
         modify_dynamic_data db a (\<lambda>obj. obj\<lparr>accumulated_fees := accumulated_fees obj + amount fee\<rparr>)
       else
         ebind (get_bitasset_data db a) (\<lambda>bad.
         ebind (FC_ASSERT (asset_id fee = short_backing_asset (bitasset_opts bad)) Assert_failed) (\<lambda>_.
           modify_dynamic_data db a
             (\<lambda>obj. obj\<lparr>accumulated_collateral_fees := accumulated_collateral_fees obj + amount fee\<rparr>)))))"


definition get_limit_order :: "database \<Rightarrow> object_id_type \<Rightarrow> error + limit_order_object" where
  "get_limit_order db i = find_obj limit_id (limit_orders db) i"

definition get_call_order :: "database \<Rightarrow> object_id_type \<Rightarrow> error + call_order_object" where
  "get_call_order db i = find_obj call_id (call_orders db) i"

definition get_settle_order :: "database \<Rightarrow> object_id_type \<Rightarrow> error + force_settlement_object" where
  "get_settle_order db i = find_obj settle_id (settle_orders db) i"

definition zero_asset :: "asset_id_type \<Rightarrow> asset" where
  "zero_asset a = \<lparr>amount = 0, asset_id = a\<rparr>"

section \<open>Revival\<close>





section \<open>Cancelling a settle order\<close>

definition cancel_settle_order :: "database \<Rightarrow> object_id_type \<Rightarrow> bool \<Rightarrow> error + database" where
  "cancel_settle_order db order_id create_virtual_op =
    ebind (get_settle_order db order_id) (\<lambda>order.
    ebind (adjust_balance db (owner order) (balance order)) (\<lambda>db1.
      let db2 = (if create_virtual_op
                 then push_applied_operation db1
                        (Asset_settle_cancel (settle_id order) (owner order) (balance order))
                 else db1)
      in Inr (db2\<lparr>settle_orders := remove_obj settle_id order_id (settle_orders db2)\<rparr>)))"

section \<open>Fee engine\<close>

definition calculate_market_fee :: "asset_object \<Rightarrow> asset \<Rightarrow> bool \<Rightarrow> error + asset" where
  "calculate_market_fee trade_asset trade_amount is_maker =
    (if \<not> charges_market_fees (options trade_asset) then Inr (zero_asset (asset_oid trade_asset))
     else if is_maker \<and> market_fee_percent (options trade_asset) = 0
       then Inr (zero_asset (asset_oid trade_asset))
     else if \<not> is_maker \<and> taker_fee_percent (options trade_asset) = Some 0
       then Inr (zero_asset (asset_oid trade_asset))
     else
       let fee_percent =
             (if is_maker then market_fee_percent (options trade_asset)
              else (case taker_fee_percent (options trade_asset) of
                      Some t \<Rightarrow> t | None \<Rightarrow> market_fee_percent (options trade_asset)))
       in ebind (calculate_percent (amount trade_amount) fee_percent) (\<lambda>v.
            Inr \<lparr>amount = (if v > max_market_fee (options trade_asset)
                           then max_market_fee (options trade_asset) else v),
                 asset_id = asset_oid trade_asset\<rparr>))"

text \<open>The share of the market fee that goes to the network (first block of \<open>pay_market_fees\<close>).\<close>

definition pay_network_fees :: "database \<Rightarrow> asset_object \<Rightarrow> asset \<Rightarrow> error + (asset \<times> database)" where
  "pay_network_fees db recv_asset issuer_fees =
    (if amount issuer_fees > 0 \<and> market_fee_network_percent db > 0 then
       ebind (calculate_percent (amount issuer_fees) (market_fee_network_percent db)) (\<lambda>network_fees_amt.
       ebind (FC_ASSERT (network_fees_amt \<le> amount issuer_fees) Assert_failed) (\<lambda>_.
         if network_fees_amt > 0 then
           let network_fees = \<lparr>amount = network_fees_amt, asset_id = asset_oid recv_asset\<rparr>
           in ebind (asset_sub issuer_fees network_fees) (\<lambda>issuer_fees'.
                Inr (issuer_fees',
                     deposit_market_fee_vesting_balance db GRAPHENE_COMMITTEE_ACCOUNT network_fees))
         else Inr (issuer_fees, db)))
     else Inr (issuer_fees, db))"

definition is_rewards_allowed :: "account_object option \<Rightarrow> asset_object \<Rightarrow> bool" where
  "is_rewards_allowed seller_opt recv_asset =
    (case seller_opt of None \<Rightarrow> False
     | Some s \<Rightarrow>
        (case whitelist_market_fee_sharing (options recv_asset) of
           None \<Rightarrow> True
         | Some white_list \<Rightarrow> white_list = [] \<or> registrar s \<in> set white_list))"

text \<open>
  The referral reward (second block of \<open>pay_market_fees\<close>): returns the reward paid out
  and the updated store.
\<close>

definition pay_rewards ::
  "database \<Rightarrow> account_object option \<Rightarrow> asset_object \<Rightarrow> asset \<Rightarrow> error + (asset \<times> database)" where
  "pay_rewards db seller_opt recv_asset issuer_fees =
    (case seller_opt of
       None \<Rightarrow> Inr (zero_asset (asset_oid recv_asset), db)
     | Some s \<Rightarrow>
       if \<not> is_rewards_allowed seller_opt recv_asset then Inr (zero_asset (asset_oid recv_asset), db)
       else (case reward_percent (options recv_asset) of
           None \<Rightarrow> Inr (zero_asset (asset_oid recv_asset), db)
         | Some rp \<Rightarrow>
           if rp = 0 then Inr (zero_asset (asset_oid recv_asset), db)
           else
             ebind (calculate_percent (amount issuer_fees) rp) (\<lambda>reward_value.
               if reward_value > 0 \<and> authorized_asset db (registrar s) (asset_oid recv_asset) then
                 let reward = \<lparr>amount = reward_value, asset_id = asset_oid recv_asset\<rparr> in
                 ebind (asset_le reward issuer_fees) (\<lambda>ok.
                 ebind (FC_ASSERT ok Assert_failed) (\<lambda>_.
                   let registrar' = (if registrar s = GRAPHENE_TEMP_ACCOUNT
                                     then GRAPHENE_COMMITTEE_ACCOUNT else registrar s);
                       referrer' = (if referrer s = GRAPHENE_TEMP_ACCOUNT
                                    then GRAPHENE_COMMITTEE_ACCOUNT else referrer s)
                   in
                   ebind (if referrer' \<noteq> registrar' then
                            ebind (calculate_percent (amount reward) (referrer_rewards_percentage s))
                              (\<lambda>referrer_rewards_value.
                                if referrer_rewards_value > 0
                                   \<and> authorized_asset db referrer' (asset_oid recv_asset) then
                                  ebind (FC_ASSERT (referrer_rewards_value \<le> amount reward) Assert_failed) (\<lambda>_.
                                    let referrer_reward = \<lparr>amount = referrer_rewards_value,
                                                            asset_id = asset_oid recv_asset\<rparr>
                                    in ebind (asset_sub reward referrer_reward) (\<lambda>registrar_reward.
                                         Inr (registrar_reward,
                                              deposit_market_fee_vesting_balance db referrer' referrer_reward)))
                                else Inr (reward, db))
                          else Inr (reward, db))
                     (\<lambda>(registrar_reward, db1).
                        Inr (reward,
                             if amount registrar_reward > 0
                             then deposit_market_fee_vesting_balance db1 registrar' registrar_reward
                             else db1))))
               else Inr (zero_asset (asset_oid recv_asset), db))))"

definition pay_market_fees ::
  "database \<Rightarrow> account_object option \<Rightarrow> asset_object \<Rightarrow> asset \<Rightarrow> bool \<Rightarrow> error + (asset \<times> database)" where
  "pay_market_fees db seller_opt recv_asset receives is_maker =
    ebind (calculate_market_fee recv_asset receives is_maker) (\<lambda>market_fees.
    ebind (asset_le market_fees receives) (\<lambda>ok.
    ebind (FC_ASSERT ok Assert_failed) (\<lambda>_.
    ebind (pay_network_fees db recv_asset market_fees) (\<lambda>(issuer_fees, db1).
      if amount issuer_fees > 0 then
        ebind (pay_rewards db1 seller_opt recv_asset issuer_fees) (\<lambda>(reward, db2).
          if amount issuer_fees > amount reward then
            ebind (modify_dynamic_data db2 recv_asset
                     (\<lambda>obj. obj\<lparr>accumulated_fees :=
                               accumulated_fees obj + (amount issuer_fees - amount reward)\<rparr>))
              (\<lambda>db3. Inr (market_fees, db3))
          else Inr (market_fees, db2))
      else Inr (market_fees, db1)))))"

definition pay_force_settle_fees ::
  "database \<Rightarrow> asset_object \<Rightarrow> asset \<Rightarrow> error + (asset \<times> database)" where
  "pay_force_settle_fees db collecting_asset collat_receives =
    ebind (FC_ASSERT (asset_oid collecting_asset \<noteq> asset_id collat_receives) Assert_failed) (\<lambda>_.
    ebind (get_bitasset_data db collecting_asset) (\<lambda>bad.
      case force_settle_fee_percent (bitasset_opts bad) of
        None \<Rightarrow> Inr (zero_asset (asset_id collat_receives), db)
      | Some fp \<Rightarrow>
        if fp = 0 then Inr (zero_asset (asset_id collat_receives), db)
        else
          ebind (calculate_percent (amount collat_receives) fp) (\<lambda>v.
            let settle_fee = \<lparr>amount = v, asset_id = asset_id collat_receives\<rparr> in
            if v > 0 then
              ebind (accumulate_fee db collecting_asset settle_fee) (\<lambda>db1. Inr (settle_fee, db1))
            else Inr (settle_fee, db))))"

definition pay_order :: "database \<Rightarrow> account_id_type \<Rightarrow> asset \<Rightarrow> asset \<Rightarrow> error + database" where
  "pay_order db receiver receives pays =
    ebind (modify_account_stats db receiver
             (\<lambda>b. if asset_id pays = core_asset
                  then b\<lparr>total_core_in_orders := total_core_in_orders b - amount pays\<rparr> else b)) (\<lambda>db1.
      adjust_balance db1 receiver receives)"


section \<open>Filling call and settle orders\<close>

text \<open>
  Orders are passed by id and read from the store on entry, as the source reads them through
  a reference into the store. The default of the last parameter of \<open>fill_call_order\<close>
  is the default-constructed asset.
\<close>

definition fill_call_order ::
  "database \<Rightarrow> object_id_type \<Rightarrow> asset \<Rightarrow> asset \<Rightarrow> price \<Rightarrow> bool \<Rightarrow> asset \<Rightarrow> error + (bool \<times> database)" where
  "fill_call_order db order_id pays receives fill_price is_maker margin_call_fee =
    ebind (get_call_order db order_id) (\<lambda>order.
    ebind (FC_ASSERT (debt_type order = asset_id receives) Assert_failed) (\<lambda>_.
    ebind (FC_ASSERT (collateral_type order = asset_id pays) Assert_failed) (\<lambda>_.
    ebind (FC_ASSERT (collateral order \<ge> amount pays) Assert_failed) (\<lambda>_.
    ebind (get_asset db (asset_id receives)) (\<lambda>mia.
    ebind (FC_ASSERT (is_market_issued mia) Assert_failed) (\<lambda>_.
      let debt' = debt order - amount receives;
          collateral' = collateral order - amount pays;
          collateral_freed =
            (if debt' = 0 then Some \<lparr>amount = collateral', asset_id = collateral_type order\<rparr>
             else None);
          db1 = db\<lparr>call_orders := modify_obj call_id order_id
                   (\<lambda>co. co\<lparr>debt := debt', collateral := (if debt' = 0 then 0 else collateral')\<rparr>)
                   (call_orders db)\<rparr>
      in
      ebind (modify_dynamic_data db1 mia
               (\<lambda>ao. ao\<lparr>current_supply := current_supply ao - amount receives\<rparr>)) (\<lambda>db2.
      ebind (case collateral_freed of
               Some c \<Rightarrow> adjust_balance db2 (borrower order) c
             | None \<Rightarrow> Inr db2) (\<lambda>db3.
      ebind (if asset_id pays = core_asset then
               modify_account_stats db3 (borrower order)
                 (\<lambda>b. b\<lparr>total_core_in_orders := total_core_in_orders b - amount pays
                           - (case collateral_freed of Some c \<Rightarrow> amount c | None \<Rightarrow> 0)\<rparr>)
             else Inr db3) (\<lambda>db4.
      ebind (if amount margin_call_fee \<noteq> 0 then accumulate_fee db4 mia margin_call_fee
             else Inr db4) (\<lambda>db5.
        let db6 = push_applied_operation db5
                    (Fill_order (Call_order order_id) (borrower order) pays receives
                       margin_call_fee fill_price is_maker);
            db7 = (if collateral_freed \<noteq> None
                   then db6\<lparr>call_orders := remove_obj call_id order_id (call_orders db6)\<rparr>
                   else db6)
        in Inr (collateral_freed \<noteq> None, db7)))))))))))"

definition fill_settle_order ::
  "database \<Rightarrow> object_id_type \<Rightarrow> asset \<Rightarrow> asset \<Rightarrow> price \<Rightarrow> bool \<Rightarrow> error + (bool \<times> database)" where
  "fill_settle_order db order_id pays receives fill_price is_maker =
    ebind (get_settle_order db order_id) (\<lambda>settle.
    ebind (lookup (accounts db) (owner settle)) (\<lambda>settle_owner.
    ebind (get_asset db (asset_id receives)) (\<lambda>recv_asset.
    ebind (pay_market_fees db (Some settle_owner) recv_asset receives is_maker) (\<lambda>(market_fees, db1).
    ebind (get_asset db1 (asset_id pays)) (\<lambda>pays_asset.
    ebind (asset_sub receives market_fees) (\<lambda>after_market_fees.
    ebind (pay_force_settle_fees db1 pays_asset after_market_fees) (\<lambda>(force_settle_fees, db2).
    ebind (asset_add market_fees force_settle_fees) (\<lambda>total_collateral_denominated_fees.
    ebind (asset_lt pays (balance settle)) (\<lambda>partial.
    ebind (if partial then
             ebind (asset_sub (balance settle) pays) (\<lambda>balance'.
               Inr (db2\<lparr>settle_orders := modify_obj settle_id order_id
                          (\<lambda>s. s\<lparr>balance := balance'\<rparr>) (settle_orders db2)\<rparr>))
           else Inr db2) (\<lambda>db3.
    ebind (asset_sub receives total_collateral_denominated_fees) (\<lambda>net.
    ebind (adjust_balance db3 (owner settle) net) (\<lambda>db4.
      let filled = (\<not> partial);
          db5 = push_applied_operation db4
                  (Fill_order (Force_settlement order_id) (owner settle) pays receives
                     total_collateral_denominated_fees fill_price is_maker);
          db6 = (if filled
                 then db5\<lparr>settle_orders := remove_obj settle_id order_id (settle_orders db5)\<rparr>
                 else db5)
      in Inr (filled, db6)))))))))))))"

section \<open>Matching a call order with a force settlement\<close>

definition asset_min :: "asset \<Rightarrow> asset \<Rightarrow> error + asset" where
  "asset_min a b = ebind (asset_lt b a) (\<lambda>lt. Inr (if lt then b else a))"

definition match_call_settle ::
  "database \<Rightarrow> object_id_type \<Rightarrow> object_id_type \<Rightarrow> price \<Rightarrow> asset \<Rightarrow> price \<Rightarrow> error + (asset \<times> database)" where
  "match_call_settle db call_oid settle_oid match_price max_settlement fill_price =
    ebind (get_call_order db call_oid) (\<lambda>call.
    ebind (get_settle_order db settle_oid) (\<lambda>settle.
    ebind (FC_ASSERT (asset_id (get_debt call) = asset_id (balance settle)) Assert_failed) (\<lambda>_.
    ebind (FC_ASSERT (debt call > 0 \<and> collateral call > 0 \<and> amount (balance settle) > 0)
             Assert_failed) (\<lambda>_.
    ebind (asset_min (balance settle) max_settlement) (\<lambda>settle_for_sale.
      let call_debt = get_debt call in
    ebind (asset_min settle_for_sale call_debt) (\<lambda>call_receives.
    ebind (asset_mul call_receives match_price) (\<lambda>call_pays.
      if amount call_pays = 0 then
        (if call_receives = call_debt then
           let call_pays = call_pays\<lparr>amount := 1\<rparr> in
           ebind (fill_call_order db call_oid call_pays call_receives fill_price True (zero_asset 0))
             (\<lambda>(_, db1).
           ebind (fill_settle_order db1 settle_oid call_receives call_pays fill_price False)
             (\<lambda>(_, db2). Inr (call_receives, db2)))
         else if call_receives = balance settle then
           ebind (cancel_settle_order db settle_oid True) (\<lambda>db1.
             Inr (zero_asset (asset_id (balance settle)), db1))
         else Inr (zero_asset (asset_id (balance settle)), db))
      else if call_receives = call_debt then
        ebind (multiply_and_round_up call_receives match_price) (\<lambda>call_pays.
        ebind (fill_call_order db call_oid call_pays call_receives fill_price True (zero_asset 0))
          (\<lambda>(_, db1).
        ebind (fill_settle_order db1 settle_oid call_receives call_pays fill_price False)
          (\<lambda>(_, db2). Inr (call_receives, db2))))
      else
        ebind (multiply_and_round_up call_pays match_price) (\<lambda>call_receives'.
          let cull_settle_order =
                (call_receives = balance settle \<and> call_receives' \<noteq> balance settle)
          in
          ebind (fill_call_order db call_oid call_pays call_receives' fill_price True (zero_asset 0))
            (\<lambda>(_, db1).
          ebind (fill_settle_order db1 settle_oid call_receives' call_pays fill_price False)
            (\<lambda>(_, db2).
          ebind (if cull_settle_order then cancel_settle_order db2 settle_oid True else Inr db2)
            (\<lambda>db3. Inr (call_receives', db3))))))))))))"

section \<open>Cancelling a limit order\<close>

text \<open>
  The first block of \<open>cancel_limit_order\<close>: the cancellation fee. It returns the store,
  the deferred fee and the deferred paid fee that remain, and the fee field of the virtual
  operation (the default-constructed asset when no fee is deducted).
\<close>

definition deduct_cancel_fee ::
  "database \<Rightarrow> limit_order_object \<Rightarrow> bool \<Rightarrow> bool \<Rightarrow> error + (database \<times> share_type \<times> asset \<times> asset)" where
  "deduct_cancel_fee db order create_virtual_op skip_cancel_fee =
    (let deferred_fee0 = deferred_fee order;
         deferred_paid_fee0 = deferred_paid_fee order
     in
     if create_virtual_op \<and> \<not> skip_cancel_fee \<and> deferred_fee0 > 0 then
       let core_cancel_fee = (if cancel_fee db > deferred_fee0 then deferred_fee0 else cancel_fee db) in
       if core_cancel_fee > 0 then
         ebind (modify_account_stats db (seller order)
                  (pay_fee core_cancel_fee (cashback_vesting_threshold db))) (\<lambda>db1.
           let deferred_fee1 = deferred_fee0 - core_cancel_fee in
           if amount deferred_paid_fee0 = 0 then
             Inr (db1, deferred_fee1, deferred_paid_fee0,
                  \<lparr>amount = core_cancel_fee, asset_id = core_asset\<rparr>)
           else
             let fee128 = u128 (amount deferred_paid_fee0);
                 fee128 = u128 (fee128 * u128 core_cancel_fee);
                 fee128 = u128 (fee128 + u128 (deferred_fee order));
                 fee128 = u128 (fee128 - 1);
                 fee128 = fee128 div u128 (deferred_fee order);
                 cancel_fee_amount = to_int64 fee128
             in
             ebind (get_asset db1 (asset_id deferred_paid_fee0)) (\<lambda>fee_asset.
             ebind (modify_dynamic_data db1 fee_asset
                      (\<lambda>addo. addo\<lparr>accumulated_fees := accumulated_fees addo + cancel_fee_amount\<rparr>))
               (\<lambda>db2.
                 Inr (db2, deferred_fee1,
                      deferred_paid_fee0\<lparr>amount := amount deferred_paid_fee0 - cancel_fee_amount\<rparr>,
                      \<lparr>amount = cancel_fee_amount, asset_id = asset_id deferred_paid_fee0\<rparr>))))
       else Inr (db, deferred_fee0, deferred_paid_fee0, zero_asset core_asset)
     else Inr (db, deferred_fee0, deferred_paid_fee0, zero_asset core_asset))"

definition cancel_limit_order :: "database \<Rightarrow> object_id_type \<Rightarrow> bool \<Rightarrow> bool \<Rightarrow> error + database" where
  "cancel_limit_order db order_id create_virtual_op skip_cancel_fee =
    ebind (get_limit_order db order_id) (\<lambda>order.
    ebind (deduct_cancel_fee db order create_virtual_op skip_cancel_fee)
      (\<lambda>(db1, deferred_fee1, deferred_paid_fee1, vop_fee).
      let refunded = amount_for_sale order in
    ebind (if asset_id refunded = core_asset then
             modify_account_stats db1 (seller order)
               (\<lambda>obj. obj\<lparr>total_core_in_orders := total_core_in_orders obj - amount refunded\<rparr>)
           else Inr db1) (\<lambda>db2.
    ebind (adjust_balance db2 (seller order) refunded) (\<lambda>db3.
    ebind (if amount (deferred_paid_fee order) = 0 then
             adjust_balance db3 (seller order) \<lparr>amount = deferred_fee1, asset_id = core_asset\<rparr>
           else
             ebind (adjust_balance db3 (seller order) deferred_paid_fee1) (\<lambda>db4.
             ebind (get_asset db4 (asset_id deferred_paid_fee1)) (\<lambda>fee_asset.
               modify_dynamic_data db4 fee_asset
                 (\<lambda>addo. addo\<lparr>fee_pool := fee_pool addo + deferred_fee1\<rparr>)))) (\<lambda>db5.
      let db6 = (if create_virtual_op
                 then push_applied_operation db5
                        (Limit_order_cancel (limit_id order) (seller order) vop_fee)
                 else db5)
      in Inr (db6\<lparr>limit_orders := remove_obj limit_id order_id (limit_orders db6)\<rparr>))))))"

text \<open>
  \<open>maybe_cull_small_order\<close> calls \<open>cancel_limit_order\<close> with its default arguments:
  a virtual operation is created and the cancel fee is not skipped.
\<close>

definition maybe_cull_small_order :: "database \<Rightarrow> object_id_type \<Rightarrow> error + (bool \<times> database)" where
  "maybe_cull_small_order db order_id =
    ebind (get_limit_order db order_id) (\<lambda>order.
    ebind (amount_to_receive order) (\<lambda>to_receive.
      if amount to_receive = 0 then
        ebind (cancel_limit_order db order_id True False) (\<lambda>db1. Inr (True, db1))
      else Inr (False, db)))"

section \<open>Filling a limit order\<close>

text \<open>
  The maker discount on the deferred creation fee (the two blocks of \<open>fill_limit_order\<close>
  between the virtual operation and the update of the order).
\<close>

definition process_deferred_fees ::
  "database \<Rightarrow> limit_order_object \<Rightarrow> bool \<Rightarrow> error + database" where
  "process_deferred_fees db order is_maker =
    (let maker_discount_percent = maker_fee_discount_percent db;
         deferred_fee0 = deferred_fee order;
         deferred_paid_fee0 = amount (deferred_paid_fee order)
     in
     ebind (if amount (deferred_paid_fee order) > 0 then
              ebind (if is_maker \<and> maker_discount_percent > 0 then
                       ebind (calculate_percent deferred_paid_fee0 maker_discount_percent) (\<lambda>refund.
                         if refund > 0 then
                           ebind (FC_ASSERT (refund \<le> deferred_paid_fee0) Assert_failed) (\<lambda>_.
                           ebind (adjust_balance db (seller order)
                                    \<lparr>amount = refund, asset_id = asset_id (deferred_paid_fee order)\<rparr>) (\<lambda>db1.
                           ebind (FC_ASSERT (deferred_fee0 > 0) Assert_failed) (\<lambda>_.
                           ebind (calculate_percent deferred_fee0 maker_discount_percent) (\<lambda>fee_pool_refund.
                           ebind (FC_ASSERT (fee_pool_refund \<le> deferred_fee0) Assert_failed) (\<lambda>_.
                             Inr (db1, deferred_fee0 - fee_pool_refund, deferred_paid_fee0 - refund,
                                  fee_pool_refund))))))
                         else Inr (db, deferred_fee0, deferred_paid_fee0, 0))
                     else Inr (db, deferred_fee0, deferred_paid_fee0, 0))
                (\<lambda>(db1, deferred_fee1, deferred_paid_fee1, fee_pool_refund).
              ebind (get_asset db1 (asset_id (deferred_paid_fee order))) (\<lambda>fee_asset.
              ebind (modify_dynamic_data db1 fee_asset
                       (\<lambda>addo. addo\<lparr>accumulated_fees := accumulated_fees addo + deferred_paid_fee1,
                                     fee_pool := fee_pool addo + fee_pool_refund\<rparr>)) (\<lambda>db2.
                Inr (db2, deferred_fee1))))
            else Inr (db, deferred_fee0)) (\<lambda>(db2, deferred_fee1).
       if deferred_fee order > 0 then
         ebind (if amount (deferred_paid_fee order) \<le> 0 \<and> is_maker \<and> maker_discount_percent > 0 then
                  ebind (calculate_percent deferred_fee1 maker_discount_percent) (\<lambda>refund.
                    if refund > 0 then
                      ebind (FC_ASSERT (refund \<le> deferred_fee1) Assert_failed) (\<lambda>_.
                      ebind (adjust_balance db2 (seller order)
                               \<lparr>amount = refund, asset_id = core_asset\<rparr>) (\<lambda>db3.
                        Inr (db3, deferred_fee1 - refund)))
                    else Inr (db2, deferred_fee1))
                else Inr (db2, deferred_fee1)) (\<lambda>(db3, deferred_fee2).
           if deferred_fee2 > 0 then
             modify_account_stats db3 (seller order)
               (pay_fee deferred_fee2 (cashback_vesting_threshold db3))
           else Inr db3)
       else Inr db2))"

definition fill_limit_order ::
  "database \<Rightarrow> object_id_type \<Rightarrow> asset \<Rightarrow> asset \<Rightarrow> bool \<Rightarrow> price \<Rightarrow> bool \<Rightarrow> error + (bool \<times> database)" where
  "fill_limit_order db order_id pays receives cull_if_small fill_price is_maker =
    ebind (get_limit_order db order_id) (\<lambda>order.
    ebind (FC_ASSERT (asset_id (amount_for_sale order) = asset_id pays) Assert_failed) (\<lambda>_.
    ebind (FC_ASSERT (asset_id pays \<noteq> asset_id receives) Assert_failed) (\<lambda>_.
    ebind (lookup (accounts db) (seller order)) (\<lambda>seller_obj.
    ebind (get_asset db (asset_id receives)) (\<lambda>recv_asset.
    ebind (pay_market_fees db (Some seller_obj) recv_asset receives is_maker) (\<lambda>(issuer_fees, db1).
    ebind (asset_sub receives issuer_fees) (\<lambda>net.
    ebind (pay_order db1 (seller order) net pays) (\<lambda>db2.
      let db3 = push_applied_operation db2
                  (Fill_order (Limit_order order_id) (seller order) pays receives issuer_fees
                     fill_price is_maker)
      in
    ebind (process_deferred_fees db3 order is_maker) (\<lambda>db4.
      if pays = amount_for_sale order then
        Inr (True, db4\<lparr>limit_orders := remove_obj limit_id order_id (limit_orders db4)\<rparr>)
      else
        let db5 = db4\<lparr>limit_orders := modify_obj limit_id order_id
                     (\<lambda>b. b\<lparr>for_sale := for_sale b - amount pays, deferred_fee := 0,
                             deferred_paid_fee := (deferred_paid_fee b)\<lparr>amount := 0\<rparr>\<rparr>)
                     (limit_orders db4)\<rparr>
        in if cull_if_small then maybe_cull_small_order db5 order_id
           else Inr (False, db5))))))))))"

section \<open>Matching two limit orders\<close>

definition fill_bits :: "bool \<Rightarrow> bool \<Rightarrow> nat" where
  "fill_bits taker_filled maker_filled =
    (if taker_filled then 1 else 0) + (if maker_filled then 2 else 0)"

definition match_limit_limit ::
  "database \<Rightarrow> object_id_type \<Rightarrow> object_id_type \<Rightarrow> price \<Rightarrow> error + (nat \<times> database)" where
  "match_limit_limit db usd_id core_id match_price =
    ebind (get_limit_order db usd_id) (\<lambda>usd.
    ebind (get_limit_order db core_id) (\<lambda>core.
    ebind (FC_ASSERT (asset_id (quote (sell_price usd)) = asset_id (base (sell_price core)))
             Assert_failed) (\<lambda>_.
    ebind (FC_ASSERT (asset_id (base (sell_price usd)) = asset_id (quote (sell_price core)))
             Assert_failed) (\<lambda>_.
    ebind (FC_ASSERT (for_sale usd > 0 \<and> for_sale core > 0) Assert_failed) (\<lambda>_.
      let usd_for_sale = amount_for_sale usd;
          core_for_sale = amount_for_sale core
      in
    ebind (asset_mul core_for_sale match_price) (\<lambda>core_at_match.
    ebind (asset_le usd_for_sale core_at_match) (\<lambda>taker_smaller.
      if taker_smaller then
        ebind (asset_mul usd_for_sale match_price) (\<lambda>usd_receives.
          if amount usd_receives = 0 then Inr (1, db)
          else
            ebind (multiply_and_round_up usd_receives match_price) (\<lambda>core_receives.
            ebind (fill_limit_order db usd_id core_receives usd_receives True match_price False)
              (\<lambda>(taker_filled, db1).
            ebind (fill_limit_order db1 core_id usd_receives core_receives True match_price True)
              (\<lambda>(maker_filled, db2).
            ebind (FC_ASSERT (fill_bits taker_filled maker_filled \<noteq> 0) No_side_filled) (\<lambda>_.
              Inr (fill_bits taker_filled maker_filled, db2))))))
      else
        ebind (asset_mul core_for_sale match_price) (\<lambda>core_receives.
        ebind (multiply_and_round_up core_receives match_price) (\<lambda>usd_receives.
        ebind (fill_limit_order db usd_id core_receives usd_receives False match_price False)
          (\<lambda>(taker_filled, db1).
        ebind (fill_limit_order db1 core_id usd_receives core_receives True match_price True)
          (\<lambda>(maker_filled, db2).
        ebind (FC_ASSERT (fill_bits taker_filled maker_filled \<noteq> 0) No_side_filled) (\<lambda>_.
          Inr (fill_bits taker_filled maker_filled, db2)))))))))))))"

section \<open>asset_settle\<close>

datatype operation_result = Asset_result asset | Object_id_result object_id_type

text \<open>
  \<open>asset_settle_evaluator::do_apply\<close>. \<open>asset_to_settle\<close> is the asset object that
  \<open>do_evaluate\<close> stored, \<open>fee_paying_account\<close> the account object of the evaluator,
  \<open>op_account\<close> and \<open>op_amount\<close> the fields of the operation.
\<close>

definition asset_settle_do_apply ::
  "database \<Rightarrow> asset_object \<Rightarrow> account_object option \<Rightarrow> account_id_type \<Rightarrow> asset
     \<Rightarrow> error + (operation_result \<times> database)" where
  "asset_settle_do_apply db asset_to_settle fee_paying_account op_account op_amount =
    ebind (get_bitasset_data db asset_to_settle) (\<lambda>bitasset.
      if has_settlement bitasset then
        ebind (get_dynamic_data db asset_to_settle) (\<lambda>mia_dyn.
        ebind (asset_mul op_amount (settlement_price bitasset)) (\<lambda>settled0.
        ebind (if amount op_amount = current_supply mia_dyn
               then Inr (settled0\<lparr>amount := settlement_fund bitasset\<rparr>)
               else ebind (FC_ASSERT (amount settled0 \<le> settlement_fund bitasset) Assert_failed)
                      (\<lambda>_. Inr settled0)) (\<lambda>settled_amount.
        ebind (FC_ASSERT (\<not> (amount settled_amount = 0 \<and> \<not> is_prediction_market bitasset))
                 Settle_amount_too_small) (\<lambda>_.
        ebind (if amount op_amount \<noteq> current_supply mia_dyn \<and> amount settled_amount \<noteq> 0
               then multiply_and_round_up settled_amount (settlement_price bitasset)
               else Inr op_amount) (\<lambda>pays.
        ebind (adjust_balance db op_account (pays\<lparr>amount := - amount pays\<rparr>)) (\<lambda>db1.
        ebind (if amount settled_amount > 0 then
                 ebind (modify_bitasset_data db1 asset_to_settle
                          (\<lambda>obj. obj\<lparr>settlement_fund := settlement_fund obj - amount settled_amount\<rparr>))
                   (\<lambda>db2.
                 ebind (get_asset db2 (asset_id settled_amount)) (\<lambda>recv_asset.
                 ebind (pay_market_fees db2 fee_paying_account recv_asset settled_amount False)
                   (\<lambda>(issuer_fees, db3).
                 ebind (asset_sub settled_amount issuer_fees) (\<lambda>settled_amount'.
                 ebind (if amount settled_amount' > 0
                        then adjust_balance db3 op_account settled_amount' else Inr db3) (\<lambda>db4.
                   Inr (settled_amount', db4))))))
               else Inr (settled_amount, db1)) (\<lambda>(settled_amount', db4).
        ebind (modify_dynamic_data db4 asset_to_settle
                 (\<lambda>obj. obj\<lparr>current_supply := current_supply obj - amount pays\<rparr>)) (\<lambda>db5.
          Inr (Asset_result settled_amount', db5)))))))))
      else
        ebind (adjust_balance db op_account (op_amount\<lparr>amount := - amount op_amount\<rparr>)) (\<lambda>db1.
          Inr (Object_id_result (next_settle_id db1),
               db1\<lparr>settle_orders := settle_orders db1 @
                      [\<lparr>settle_id = next_settle_id db1, owner = op_account, balance = op_amount\<rparr>],
                    next_settle_id := next_settle_id db1 + 1\<rparr>)))"

section \<open>Frames\<close>

text \<open>
  \<open>fee_frame db db'\<close>: the store \<open>db'\<close> differs from \<open>db\<close> at most in the dynamic
  asset data and the market-fee vesting balances, which is all the fee engine writes.
\<close>

definition fee_frame :: "database \<Rightarrow> database \<Rightarrow> bool" where
  "fee_frame db db' =
    (db' = db\<lparr>dynamic_data := dynamic_data db', market_fee_vesting := market_fee_vesting db'\<rparr>)"

section \<open>Example states\<close>

definition empty_db :: database where
  "empty_db = \<lparr>limit_orders = [], call_orders = [], settle_orders = [],
     assets = Map.empty, dynamic_data = Map.empty, bitasset_data = Map.empty,
     accounts = Map.empty, account_stats = Map.empty,
     balances = (\<lambda>_ _. 0), market_fee_vesting = (\<lambda>_ _. 0),
     applied_operations = [], authorized_asset = (\<lambda>_ _. True), cancel_fee = 0,
     maker_fee_discount_percent = 0, market_fee_network_percent = 0,
     cashback_vesting_threshold = 0, next_settle_id = 100\<rparr>"

definition plain_options :: asset_options where
  "plain_options = \<lparr>charges_market_fees = False, market_fee_percent = 0, max_market_fee = 0,
     taker_fee_percent = None, reward_percent = None, whitelist_market_fee_sharing = None\<rparr>"

text \<open>Asset 0 is the core asset, asset 1 a market-issued asset backed by the core asset.\<close>

definition core_obj :: asset_object where
  "core_obj = \<lparr>asset_oid = 0, options = plain_options, dynamic_asset_data_id = 0,
     bitasset_data_id = None\<rparr>"

definition mia_obj :: asset_object where
  "mia_obj = \<lparr>asset_oid = 1, options = plain_options, dynamic_asset_data_id = 1,
     bitasset_data_id = Some 0\<rparr>"

definition mk_asset :: "share_type \<Rightarrow> asset_id_type \<Rightarrow> asset" where
  "mk_asset n a = \<lparr>amount = n, asset_id = a\<rparr>"

definition mk_price :: "share_type \<Rightarrow> asset_id_type \<Rightarrow> share_type \<Rightarrow> asset_id_type \<Rightarrow> price" where
  "mk_price n a m b = \<lparr>base = mk_asset n a, quote = mk_asset m b\<rparr>"

definition mk_dyn :: "share_type \<Rightarrow> asset_dynamic_data_object" where
  "mk_dyn supply = \<lparr>current_supply = supply, fee_pool = 0, accumulated_fees = 0,
     accumulated_collateral_fees = 0\<rparr>"

text \<open>
  A globally settled asset: 100 units outstanding, a settlement fund of 1 unit of core, a
  valid feed, and a maintenance collateralization of 175 core per 100 units.
\<close>

definition settled_bad :: asset_bitasset_data_object where
  "settled_bad = \<lparr>bitasset_opts = \<lparr>short_backing_asset = 0, margin_call_fee_ratio = None,
                                    force_settle_fee_percent = None\<rparr>,
     current_feed = \<lparr>feed_settlement_price = mk_price 10 1 1 0,
                     maintenance_collateral_ratio = 1750, maximum_short_squeeze_ratio = 1100\<rparr>,
     current_maintenance_collateralization = mk_price 175 0 100 1,
     settlement_price = mk_price 100 1 10 0,
     settlement_fund = 1,
     is_prediction_market = False\<rparr>"

definition settled_db :: database where
  "settled_db = empty_db\<lparr>assets := [0 \<mapsto> core_obj, 1 \<mapsto> mia_obj],
     dynamic_data := [0 \<mapsto> mk_dyn 1000000, 1 \<mapsto> mk_dyn 100],
     bitasset_data := [0 \<mapsto> settled_bad]\<rparr>"

text \<open>The same asset with a settlement fund of 200 units of core.\<close>

definition revivable_bad :: asset_bitasset_data_object where
  "revivable_bad = settled_bad\<lparr>settlement_fund := 200\<rparr>"

definition revivable_db :: database where
  "revivable_db = settled_db\<lparr>bitasset_data := [0 \<mapsto> revivable_bad]\<rparr>"

definition revived_db :: database where
  "revived_db = settled_db\<lparr>bitasset_data :=
     [0 \<mapsto> revivable_bad\<lparr>settlement_price := null_price, settlement_fund := 0\<rparr>]\<rparr>"

text \<open>
  A live market: account 10 has borrowed 100 units of asset 1 against 50 units of core,
  account 11 asks to settle 10 units.
\<close>

definition live_bad :: asset_bitasset_data_object where
  "live_bad = settled_bad\<lparr>settlement_price := null_price, settlement_fund := 0\<rparr>"

definition plain_account :: account_object where
  "plain_account = \<lparr>registrar = 2, referrer = 2, referrer_rewards_percentage = 0\<rparr>"

definition plain_stats :: account_statistics_object where
  "plain_stats = \<lparr>total_core_in_orders = 1000, pending_fees = 0, pending_vested_fees = 0\<rparr>"

definition mk_call :: "object_id_type \<Rightarrow> account_id_type \<Rightarrow> share_type \<Rightarrow> share_type \<Rightarrow> call_order_object" where
  "mk_call i b c d = \<lparr>call_id = i, borrower = b, collateral = c, debt = d,
     collateral_type = 0, debt_type = 1, target_collateral_ratio = None\<rparr>"

definition mk_settle :: "object_id_type \<Rightarrow> account_id_type \<Rightarrow> share_type \<Rightarrow> force_settlement_object" where
  "mk_settle i a n = \<lparr>settle_id = i, owner = a, balance = mk_asset n 1\<rparr>"

definition market_db :: database where
  "market_db = empty_db\<lparr>assets := [0 \<mapsto> core_obj, 1 \<mapsto> mia_obj],
     dynamic_data := [0 \<mapsto> mk_dyn 1000000, 1 \<mapsto> mk_dyn 100],
     bitasset_data := [0 \<mapsto> live_bad],
     accounts := [10 \<mapsto> plain_account, 11 \<mapsto> plain_account],
     account_stats := [10 \<mapsto> plain_stats, 11 \<mapsto> plain_stats],
     call_orders := [mk_call 1 10 50 100],
     settle_orders := [mk_settle 1 11 10]\<rparr>"

text \<open>The same market with a debt position of 2 units only, and one of 3 units backed by 1.\<close>

definition dust_db :: database where
  "dust_db = market_db\<lparr>call_orders := [mk_call 1 10 50 2]\<rparr>"

definition thin_db :: database where
  "thin_db = market_db\<lparr>call_orders := [mk_call 1 10 1 3], settle_orders := [mk_settle 1 11 2]\<rparr>"

text \<open>
  Asset 2 is a user-issued asset. Account 12 has an order on the book that sells 500 units
  of asset 2 for 250 units of core; its creation fee of 100 units of core was paid with 50
  units of asset 2. The fee schedule charges 30 units of core for a cancellation.
\<close>

definition other_obj :: asset_object where
  "other_obj = \<lparr>asset_oid = 2, options = plain_options, dynamic_asset_data_id = 2,
     bitasset_data_id = None\<rparr>"

definition mk_limit ::
  "object_id_type \<Rightarrow> account_id_type \<Rightarrow> share_type \<Rightarrow> price \<Rightarrow> limit_order_object" where
  "mk_limit i a n p = \<lparr>limit_id = i, seller = a, for_sale = n, sell_price = p,
     deferred_fee = 0, deferred_paid_fee = mk_asset 0 0\<rparr>"

definition fee_order :: limit_order_object where
  "fee_order = (mk_limit 7 12 500 (mk_price 500 2 250 0))
     \<lparr>deferred_fee := 100, deferred_paid_fee := mk_asset 50 2\<rparr>"

definition fee_db :: database where
  "fee_db = empty_db\<lparr>assets := [0 \<mapsto> core_obj, 2 \<mapsto> other_obj],
     dynamic_data := [0 \<mapsto> mk_dyn 1000000, 2 \<mapsto> mk_dyn 5000],
     accounts := [12 \<mapsto> plain_account],
     account_stats := [12 \<mapsto> plain_stats],
     limit_orders := [fee_order],
     cancel_fee := 30\<rparr>"

text \<open>
  A globally settled asset close to the end of its redemption: 2 units are outstanding, all
  held by account 11, and the fund holds 1 unit of core; the settlement price is 100 units
  per 15 units of core.
\<close>

definition last_bad :: asset_bitasset_data_object where
  "last_bad = settled_bad\<lparr>settlement_price := mk_price 100 1 15 0, settlement_fund := 1\<rparr>"

definition last_db :: database where
  "last_db = empty_db\<lparr>assets := [0 \<mapsto> core_obj, 1 \<mapsto> mia_obj],
     dynamic_data := [0 \<mapsto> mk_dyn 1000000, 1 \<mapsto> mk_dyn 2],
     bitasset_data := [0 \<mapsto> last_bad],
     accounts := [11 \<mapsto> plain_account],
     account_stats := [11 \<mapsto> plain_stats],
     balances := (\<lambda>a b. if a = 11 \<and> b = 1 then 2 else 0)\<rparr>"

text \<open>
  Scenario 1 of the specification: order 1 of account 12 sells 100 units of asset 2 for 300
  units of core; order 2 of account 13 sells 600 units of core for 200 units of asset 2.
\<close>

definition book_db :: database where
  "book_db = empty_db\<lparr>assets := [0 \<mapsto> core_obj, 2 \<mapsto> other_obj],
     dynamic_data := [0 \<mapsto> mk_dyn 1000000, 2 \<mapsto> mk_dyn 5000],
     accounts := [12 \<mapsto> plain_account, 13 \<mapsto> plain_account],
     account_stats := [12 \<mapsto> plain_stats, 13 \<mapsto> plain_stats],
     limit_orders := [mk_limit 1 12 100 (mk_price 100 2 300 0),
                      mk_limit 2 13 600 (mk_price 600 0 200 2)]\<rparr>"

section \<open>Basic facts\<close>

lemmas example_defs = empty_db_def plain_options_def core_obj_def mia_obj_def mk_asset_def
  mk_price_def mk_dyn_def settled_bad_def settled_db_def revivable_bad_def revivable_db_def
  revived_db_def live_bad_def plain_account_def plain_stats_def mk_call_def mk_settle_def
  market_db_def dust_db_def thin_db_def other_obj_def mk_limit_def fee_order_def fee_db_def
  last_bad_def last_db_def book_db_def


lemmas model_defs = asset_settle_do_apply_def has_settlement_def is_null_def null_price_def
  cancel_limit_order_def deduct_cancel_fee_def maybe_cull_small_order_def
  fill_limit_order_def process_deferred_fees_def match_limit_limit_def fill_bits_def pay_order_def
  pay_fee_def amount_for_sale_def amount_to_receive_def match_call_settle_def fill_call_order_def fill_settle_order_def
  cancel_settle_order_def pay_market_fees_def pay_force_settle_fees_def calculate_market_fee_def
  pay_network_fees_def pay_rewards_def is_rewards_allowed_def accumulate_fee_def
  adjust_balance_def modify_dynamic_data_def modify_account_stats_def modify_bitasset_data_def
  get_call_order_def get_settle_order_def get_limit_order_def get_asset_def get_dynamic_data_def
  get_bitasset_data_def find_obj_def modify_obj_def remove_obj_def lookup_def
  push_applied_operation_def asset_min_def asset_lt_def asset_le_def asset_sub_def asset_add_def
  asset_mul_def multiply_and_round_up_def u128_def to_int64_def calculate_percent_def
  GRAPHENE_MAX_SHARE_SUPPLY_def GRAPHENE_100_PERCENT_def zero_asset_def get_debt_def
  get_collateral_def is_market_issued_def core_asset_def Let_def

lemma ebind_Inr [simp]: "ebind (Inr x) f = f x"
  by (simp add: ebind_def)

lemma ebind_Inl [simp]: "ebind (Inl e) f = Inl e"
  by (simp add: ebind_def)

lemma ebind_eq_Inr: "(ebind m f = Inr y) = (\<exists>x. m = Inr x \<and> f x = Inr y)"
  by (cases m) simp_all

lemma FC_ASSERT_eq_Inr [simp]: "(FC_ASSERT c e = Inr u) = c"
  by (simp add: FC_ASSERT_def)

lemma FC_ASSERT_True [simp]: "FC_ASSERT True e = Inr ()"
  by (simp add: FC_ASSERT_def)

lemma FC_ASSERT_False [simp]: "FC_ASSERT False e = Inl e"
  by (simp add: FC_ASSERT_def)

lemma lookup_eq_Inr [simp]: "(lookup m k = Inr v) = (m k = Some v)"
  by (simp add: lookup_def split: option.splits)



section \<open>Revival (C8)\<close>








section \<open>Price arithmetic without wrap-around\<close>

lemma u128_id: "0 \<le> x \<Longrightarrow> x < 2 ^ 128 \<Longrightarrow> u128 x = x"
  by (simp add: u128_def)

lemma mult_lt_2_128:
  fixes a b :: int
  assumes "0 \<le> a" "a < 2 ^ 63" "0 \<le> b" "b < 2 ^ 63"
  shows "a * b < 2 ^ 126"
proof -
  have "a * b \<le> 2 ^ 63 * b" using assms by (intro mult_right_mono) auto
  also have "\<dots> < 2 ^ 63 * 2 ^ 63" using assms by (intro mult_strict_left_mono) auto
  finally show "a * b < 2 ^ 126" by simp
qed

lemma div_mult_le_int:
  fixes y b :: int
  assumes "0 < b"
  shows "(y div b) * b \<le> y"
proof -
  have "y div b * b + y mod b = y" by (rule div_mult_mod_eq)
  moreover have "0 \<le> y mod b" using assms by simp
  ultimately show ?thesis by linarith
qed

lemma div_less_if_less_mult:
  fixes y q x :: int
  assumes "0 < q" "y < x * q"
  shows "y div q < x"
proof -
  have "(y div q) * q \<le> y" using assms(1) by (rule div_mult_le_int)
  with assms(2) have "(y div q) * q < x * q" by linarith
  then show ?thesis using assms(1) by (simp add: mult_less_cancel_right)
qed









section \<open>Matching a call order with a force settlement (C10, C6)\<close>

lemma ebindE:
  assumes "ebind m f = Inr y"
  obtains x where "m = Inr x" "f x = Inr y"
  using assms by (cases m) simp_all






text \<open>
  C6. The dust rule of \<open>match(call, settle)\<close>: when the assertions hold and
  \<open>call_pays = min(min(settle.balance, max_settlement), call.debt) * match_price\<close> rounds
  down to zero, then (a) if the call is wholly taken, both orders are filled with
  \<open>call_pays\<close> set to 1 unit; (b) otherwise, if \<open>call_receives\<close> is the whole
  balance of the settle order, the settle order is cancelled (its balance goes back to its
  owner, a cancel operation is recorded, the order is removed) and 0 is returned; (c)
  otherwise 0 is returned and the store is unchanged.
\<close>

theorem match_call_settle_dust:
  assumes c: "get_call_order db call_oid = Inr call"
    and s: "get_settle_order db settle_oid = Inr settle"
    and ids: "asset_id (get_debt call) = asset_id (balance settle)"
    and pos: "0 < debt call" "0 < collateral call" "0 < amount (balance settle)"
    and sfs: "asset_min (balance settle) max_settlement = Inr settle_for_sale"
    and cr: "asset_min settle_for_sale (get_debt call) = Inr call_receives"
    and cp: "asset_mul call_receives match_price = Inr call_pays"
    and zero: "amount call_pays = 0"
  shows "match_call_settle db call_oid settle_oid match_price max_settlement fill_price =
    (if call_receives = get_debt call then
       ebind (fill_call_order db call_oid (call_pays\<lparr>amount := 1\<rparr>) call_receives fill_price True
                (zero_asset 0)) (\<lambda>(filled, db1).
       ebind (fill_settle_order db1 settle_oid call_receives (call_pays\<lparr>amount := 1\<rparr>) fill_price
                False) (\<lambda>(filled, db2). Inr (call_receives, db2)))
     else if call_receives = balance settle then
       Inr (zero_asset (asset_id (balance settle)),
            db\<lparr>balances := (balances db)(owner settle :=
                   (balances db (owner settle))(asset_id (balance settle) :=
                      balances db (owner settle) (asset_id (balance settle)) + amount (balance settle))),
                applied_operations := applied_operations db
                   @ [Asset_settle_cancel (settle_id settle) (owner settle) (balance settle)],
                settle_orders := remove_obj settle_id settle_oid (settle_orders db)\<rparr>)
     else Inr (zero_asset (asset_id (balance settle)), db))"
proof -
  have cancel: "cancel_settle_order db settle_oid True =
      Inr (db\<lparr>balances := (balances db)(owner settle :=
                   (balances db (owner settle))(asset_id (balance settle) :=
                      balances db (owner settle) (asset_id (balance settle)) + amount (balance settle))),
                applied_operations := applied_operations db
                   @ [Asset_settle_cancel (settle_id settle) (owner settle) (balance settle)],
                settle_orders := remove_obj settle_id settle_oid (settle_orders db)\<rparr>)"
    using s pos(3)
    by (simp add: cancel_settle_order_def adjust_balance_def push_applied_operation_def Let_def)
  show ?thesis
    unfolding match_call_settle_def
    using c s ids pos sfs cr cp zero cancel
    by (simp add: Let_def)
qed

lemma dust_bump_eval:
  "\<exists>db'. match_call_settle dust_db 1 1 (mk_price 3 1 1 0) (mk_asset 1000 1) (mk_price 3 1 1 0)
     = Inr (mk_asset 2 1, db')"
  by (simp add: model_defs example_defs)

text \<open>
  Witness for C6: a settle order of 10 units meets a debt of 2 units at 3 units per unit of
  core; 2 units would pay 0, so the call pays 1 unit of core and is closed.
\<close>

theorem match_call_settle_dust_witness:
  "get_call_order dust_db 1 = Inr (mk_call 1 10 50 2)
   \<and> get_settle_order dust_db 1 = Inr (mk_settle 1 11 10)
   \<and> asset_min (balance (mk_settle 1 11 10)) (mk_asset 1000 1) = Inr (mk_asset 10 1)
   \<and> asset_min (mk_asset 10 1) (get_debt (mk_call 1 10 50 2)) = Inr (mk_asset 2 1)
   \<and> asset_mul (mk_asset 2 1) (mk_price 3 1 1 0) = Inr (mk_asset 0 0)
   \<and> match_call_settle dust_db 1 1 (mk_price 3 1 1 0) (mk_asset 1000 1) (mk_price 3 1 1 0) =
       ebind (fill_call_order dust_db 1 (mk_asset 1 0) (mk_asset 2 1) (mk_price 3 1 1 0) True
                (zero_asset 0)) (\<lambda>(filled, db1).
       ebind (fill_settle_order db1 1 (mk_asset 2 1) (mk_asset 1 0) (mk_price 3 1 1 0)
                False) (\<lambda>(filled, db2). Inr (mk_asset 2 1, db2)))
   \<and> (\<exists>db'. match_call_settle dust_db 1 1 (mk_price 3 1 1 0) (mk_asset 1000 1) (mk_price 3 1 1 0)
          = Inr (mk_asset 2 1, db'))"
proof -
  have c: "get_call_order dust_db 1 = Inr (mk_call 1 10 50 2)"
    by (simp add: model_defs example_defs)
  have s: "get_settle_order dust_db 1 = Inr (mk_settle 1 11 10)"
    by (simp add: model_defs example_defs)
  have sfs: "asset_min (balance (mk_settle 1 11 10)) (mk_asset 1000 1) = Inr (mk_asset 10 1)"
    by (simp add: model_defs example_defs)
  have cr: "asset_min (mk_asset 10 1) (get_debt (mk_call 1 10 50 2)) = Inr (mk_asset 2 1)"
    by (simp add: model_defs example_defs)
  have cp: "asset_mul (mk_asset 2 1) (mk_price 3 1 1 0) = Inr (mk_asset 0 0)"
    by (simp add: model_defs example_defs)
  have "match_call_settle dust_db 1 1 (mk_price 3 1 1 0) (mk_asset 1000 1) (mk_price 3 1 1 0) =
       ebind (fill_call_order dust_db 1 (mk_asset 1 0) (mk_asset 2 1) (mk_price 3 1 1 0) True
                (zero_asset 0)) (\<lambda>(filled, db1).
       ebind (fill_settle_order db1 1 (mk_asset 2 1) (mk_asset 1 0) (mk_price 3 1 1 0)
                False) (\<lambda>(filled, db2). Inr (mk_asset 2 1, db2)))"
    using match_call_settle_dust[OF c s _ _ _ _ sfs cr cp, of "mk_price 3 1 1 0"]
    by (simp add: example_defs get_debt_def)
  with c s sfs cr cp dust_bump_eval show ?thesis by blast
qed

section \<open>Filling a call order (C5)\<close>

lemma find_obj_eq_Inr:
  "find_obj key xs i = Inr x \<Longrightarrow> x \<in> set xs \<and> key x = i"
  by (auto simp: find_obj_def find_Some_iff split: option.splits)

lemma modify_dynamic_data_calls:
  "modify_dynamic_data db a f = Inr db' \<Longrightarrow> call_orders db' = call_orders db"
  by (auto simp: modify_dynamic_data_def ebind_eq_Inr)

lemma modify_account_stats_calls:
  "modify_account_stats db a f = Inr db' \<Longrightarrow> call_orders db' = call_orders db"
  by (auto simp: modify_account_stats_def ebind_eq_Inr)

lemma adjust_balance_calls:
  "adjust_balance db a d = Inr db' \<Longrightarrow> call_orders db' = call_orders db"
  by (auto simp: adjust_balance_def split: if_splits)

lemma accumulate_fee_calls:
  "accumulate_fee db a fee = Inr db' \<Longrightarrow> call_orders db' = call_orders db"
  by (auto simp: accumulate_fee_def ebind_eq_Inr dest: modify_dynamic_data_calls split: if_splits)

lemma fill_call_order_calls:
  assumes f: "fill_call_order db order_id pays receives fill_price is_maker margin_call_fee = Inr (filled, db')"
    and g: "get_call_order db order_id = Inr order"
  shows "filled = (debt order = amount receives)"
    "amount pays \<le> collateral order"
    "call_orders db' =
       (if debt order = amount receives then remove_obj call_id order_id (call_orders db)
        else modify_obj call_id order_id
               (\<lambda>co. co\<lparr>debt := debt order - amount receives,
                         collateral := collateral order - amount pays\<rparr>) (call_orders db))"
proof -
  have rm: "remove_obj call_id order_id
               (modify_obj call_id order_id (\<lambda>co. co\<lparr>debt := d, collateral := k\<rparr>) xs)
             = remove_obj call_id order_id xs"
    for d k and xs :: "call_order_object list"
    by (induction xs) (auto simp: remove_obj_def modify_obj_def)
  from f g have "filled = (debt order = amount receives) \<and> amount pays \<le> collateral order \<and>
    call_orders db' =
       (if debt order = amount receives then remove_obj call_id order_id (call_orders db)
        else modify_obj call_id order_id
               (\<lambda>co. co\<lparr>debt := debt order - amount receives,
                         collateral := collateral order - amount pays\<rparr>) (call_orders db))"
    unfolding fill_call_order_def Let_def
    apply (elim ebindE)
    apply (clarsimp simp: push_applied_operation_def rm
        split: if_splits option.splits
        dest!: modify_dynamic_data_calls modify_account_stats_calls adjust_balance_calls
          accumulate_fee_calls)
    done
  then show "filled = (debt order = amount receives)"
    "amount pays \<le> collateral order"
    "call_orders db' =
       (if debt order = amount receives then remove_obj call_id order_id (call_orders db)
        else modify_obj call_id order_id
               (\<lambda>co. co\<lparr>debt := debt order - amount receives,
                         collateral := collateral order - amount pays\<rparr>) (call_orders db))"
    by simp_all
qed

text \<open>
  C5 (amended). \<open>fill_call_order\<close> removes the call exactly when its debt reaches zero.
  If every call had positive debt and collateral before, then afterwards every call has a
  debt other than zero and a collateral that is not negative; debt and collateral are both
  positive afterwards provided the fill does not take more than the debt and, when it leaves
  debt, takes less than the whole collateral. \<open>fill_call_order\<close> itself only asserts
  that the collateral covers what is paid.
\<close>

theorem fill_call_order_keeps_calls_positive:
  assumes f: "fill_call_order db order_id pays receives fill_price is_maker margin_call_fee = Inr (filled, db')"
    and g: "get_call_order db order_id = Inr order"
    and inv: "\<forall>c\<in>set (call_orders db). 0 < debt c \<and> 0 < collateral c"
  shows "filled = (amount receives = debt order)
    \<and> (filled \<longrightarrow> (\<forall>c\<in>set (call_orders db'). call_id c \<noteq> order_id))
    \<and> (\<forall>c\<in>set (call_orders db'). debt c \<noteq> 0 \<and> 0 \<le> collateral c)
    \<and> (amount receives \<le> debt order
         \<and> (amount receives < debt order \<longrightarrow> amount pays < collateral order)
       \<longrightarrow> (\<forall>c\<in>set (call_orders db'). 0 < debt c \<and> 0 < collateral c))"
proof -
  note k = fill_call_order_calls[OF f g]
  show ?thesis
  proof (cases "debt order = amount receives")
    case True
    then have co: "call_orders db' = remove_obj call_id order_id (call_orders db)"
      using k(3) by simp
    from True k(1) have "filled = (amount receives = debt order)" by auto
    moreover have "\<forall>c\<in>set (call_orders db'). call_id c \<noteq> order_id"
      using co by (simp add: remove_obj_def)
    moreover have "\<forall>c\<in>set (call_orders db'). 0 < debt c \<and> 0 < collateral c"
      using co inv by (simp add: remove_obj_def)
    ultimately show ?thesis by force
  next
    case False
    then have co: "call_orders db' = modify_obj call_id order_id
               (\<lambda>co. co\<lparr>debt := debt order - amount receives,
                         collateral := collateral order - amount pays\<rparr>) (call_orders db)"
      using k(3) by simp
    from False k(1) have nf: "\<not> filled" "amount receives \<noteq> debt order" by auto
    have weak: "\<forall>c\<in>set (call_orders db'). debt c \<noteq> 0 \<and> 0 \<le> collateral c"
      using co inv False k(2) by (auto simp: modify_obj_def)
    have strong: "\<forall>c\<in>set (call_orders db'). 0 < debt c \<and> 0 < collateral c"
      if "amount receives \<le> debt order" "amount pays < collateral order"
      using co inv False that by (auto simp: modify_obj_def)
    from nf weak strong show ?thesis by auto
  qed
qed

lemma market_fill_eval:
  "\<exists>db'. fill_call_order market_db 1 (mk_asset 3 0) (mk_asset 9 1) (mk_price 3 1 1 0) True
      (zero_asset 0) = Inr (False, db')"
  by (simp add: model_defs example_defs)

text \<open>
  Witness for C5: taking 3 of 50 units of collateral for 9 of 100 units of debt leaves the
  call alive with positive debt and collateral.
\<close>

theorem fill_call_order_keeps_calls_positive_witness:
  "(\<exists>db'. fill_call_order market_db 1 (mk_asset 3 0) (mk_asset 9 1) (mk_price 3 1 1 0) True
      (zero_asset 0) = Inr (False, db')
     \<and> list_all (\<lambda>c. 0 < debt c \<and> 0 < collateral c) (call_orders db'))
   \<and> get_call_order market_db 1 = Inr (mk_call 1 10 50 100)
   \<and> list_all (\<lambda>c. 0 < debt c \<and> 0 < collateral c) (call_orders market_db)"
proof -
  from market_fill_eval obtain db' where
    f: "fill_call_order market_db 1 (mk_asset 3 0) (mk_asset 9 1) (mk_price 3 1 1 0) True
      (zero_asset 0) = Inr (False, db')" by blast
  have g: "get_call_order market_db 1 = Inr (mk_call 1 10 50 100)"
    by (simp add: model_defs example_defs)
  have inv: "\<forall>c\<in>set (call_orders market_db). 0 < debt c \<and> 0 < collateral c"
    by (simp add: example_defs)
  from fill_call_order_keeps_calls_positive[OF f g inv]
  have "\<forall>c\<in>set (call_orders db'). 0 < debt c \<and> 0 < collateral c"
    by (simp add: example_defs)
  with f g inv show ?thesis by (auto simp: list_all_iff)
qed

text \<open>
  C5 as stated fails: with a debt of 3 units backed by 1 unit of core, settling 2 units at
  2 units per unit of core passes every assertion of \<open>match(call, settle)\<close> and leaves
  the call alive with a debt of 1 and no collateral.
\<close>

theorem call_invariant_counterexample:
  "call_orders thin_db = [mk_call 1 10 1 3]
   \<and> (case match_call_settle thin_db 1 1 (mk_price 2 1 1 0) (mk_asset 1000 1) (mk_price 2 1 1 0) of
        Inl e \<Rightarrow> []
      | Inr (r, db') \<Rightarrow> call_orders db') = [mk_call 1 10 0 1]
   \<and> collateral (mk_call 1 10 0 1) = 0"
  by (simp add: model_defs example_defs)

section \<open>Cancelling a limit order (C9)\<close>

lemma to_int64_id: "0 \<le> x \<Longrightarrow> x < 2 ^ 63 \<Longrightarrow> to_int64 x = x"
  by (simp add: to_int64_def)

lemma ceil_div_le:
  fixes p c d :: int
  assumes "0 \<le> p" "0 < d" "c \<le> d"
  shows "(p * c + d - 1) div d \<le> p"
proof -
  have "p * c \<le> p * d" using assms by (intro mult_left_mono) auto
  then have "p * c + d - 1 < (p + 1) * d" using assms by (simp add: algebra_simps)
  then have "(p * c + d - 1) div d < p + 1" using assms(2) by (intro div_less_if_less_mult)
  then show ?thesis by simp
qed

lemma cancel_fee_amount:
  assumes p: "0 < p" "p < 2 ^ 63" and c: "0 < c" "c \<le> d" and d: "d < 2 ^ 63"
  shows "to_int64 (u128 (u128 (u128 (u128 p * u128 c) + u128 d) - 1) div u128 d)
           = (p * c + d - 1) div d"
    and "0 \<le> (p * c + d - 1) div d" and "(p * c + d - 1) div d \<le> p"
proof -
  have c63: "c < 2 ^ 63" and d0: "0 < d" using c d by auto
  have up: "u128 p = p" and uc: "u128 c = c" and ud: "u128 d = d"
    using p c d c63 d0 by (simp_all add: u128_id)
  have pc: "p * c < 2 ^ 126" using p c c63 by (intro mult_lt_2_128) auto
  have pc0: "0 \<le> p * c" using p c by simp
  have u1: "u128 (p * c) = p * c" using pc pc0 by (simp add: u128_id)
  have u2: "u128 (p * c + d) = p * c + d" using pc pc0 d d0 by (simp add: u128_id)
  have u3: "u128 (p * c + d - 1) = p * c + d - 1" using pc pc0 d d0 by (simp add: u128_id)
  show le: "(p * c + d - 1) div d \<le> p"
    using p c d0 by (intro ceil_div_le) auto
  show nn: "0 \<le> (p * c + d - 1) div d"
    using pc0 d0 by (simp add: pos_imp_zdiv_nonneg_iff)
  have "(p * c + d - 1) div d < 2 ^ 63" using le p by linarith
  then show "to_int64 (u128 (u128 (u128 (u128 p * u128 c) + u128 d) - 1) div u128 d)
           = (p * c + d - 1) div d"
    using nn by (simp add: up uc ud u1 u2 u3 to_int64_id)
qed

lemma deduct_cancel_fee_non_core:
  assumes st: "account_stats db (seller order) = Some stats"
    and fa: "assets db (asset_id (deferred_paid_fee order)) = Some fee_asset"
    and dd: "dynamic_data db (dynamic_asset_data_id fee_asset) = Some dyn"
    and df: "0 < deferred_fee order" "deferred_fee order < 2 ^ 63"
    and pf: "0 < amount (deferred_paid_fee order)" "amount (deferred_paid_fee order) < 2 ^ 63"
    and cf: "0 < cancel_fee db"
    and cc: "cancel_core = min (cancel_fee db) (deferred_fee order)"
    and td: "to_deduct = (amount (deferred_paid_fee order) * cancel_core + deferred_fee order - 1)
                div deferred_fee order"
  shows "deduct_cancel_fee db order True False =
     Inr (db\<lparr>account_stats := (account_stats db)(seller order \<mapsto>
                pay_fee cancel_core (cashback_vesting_threshold db) stats),
             dynamic_data := (dynamic_data db)(dynamic_asset_data_id fee_asset \<mapsto>
                dyn\<lparr>accumulated_fees := accumulated_fees dyn + to_deduct\<rparr>)\<rparr>,
          deferred_fee order - cancel_core,
          (deferred_paid_fee order)\<lparr>amount := amount (deferred_paid_fee order) - to_deduct\<rparr>,
          \<lparr>amount = to_deduct, asset_id = asset_id (deferred_paid_fee order)\<rparr>)"
proof -
  have c0: "0 < cancel_core" "cancel_core \<le> deferred_fee order"
    using cc cf df by auto
  have cce: "(if deferred_fee order < cancel_fee db then deferred_fee order else cancel_fee db) = cancel_core"
    using cc by (simp add: min_def)
  note a = cancel_fee_amount(1)[OF pf c0 df(2)]
  show ?thesis
    unfolding deduct_cancel_fee_def Let_def cce
    using st fa dd df pf c0 a td
    by (simp add: modify_account_stats_def modify_dynamic_data_def get_asset_def
        get_dynamic_data_def lookup_def)
qed

text \<open>
  C9. Cancelling a limit order with a virtual operation and without skipping the fee, when
  the order carries a positive deferred fee that was paid with a positive amount of another
  asset and the fee schedule charges a positive cancellation fee: with
  \<open>cancel_core = min(schedule fee, deferred_fee)\<close> and
  \<open>to_deduct = ceil(deferred_paid_fee * cancel_core / deferred_fee)\<close>, the cancellation
  succeeds, \<open>to_deduct\<close> is added to that asset's accumulated fees,
  \<open>deferred_paid_fee - to_deduct\<close> of that asset goes back to the seller (next to the
  amount for sale, when that is of the same asset), \<open>deferred_fee - cancel_core\<close> goes to
  that asset's fee pool, the virtual operation carries the fee \<open>to_deduct\<close> of that asset,
  and the order is removed.
\<close>

theorem cancel_limit_order_non_core_fee:
  assumes g: "get_limit_order db order_id = Inr order"
    and st: "account_stats db (seller order) = Some stats"
    and fa: "assets db (asset_id (deferred_paid_fee order)) = Some fee_asset"
    and dd: "dynamic_data db (dynamic_asset_data_id fee_asset) = Some dyn"
    and df: "0 < deferred_fee order" "deferred_fee order < 2 ^ 63"
    and pf: "0 < amount (deferred_paid_fee order)" "amount (deferred_paid_fee order) < 2 ^ 63"
    and cf: "0 < cancel_fee db"
    and fs: "0 \<le> for_sale order"
    and cc: "cancel_core = min (cancel_fee db) (deferred_fee order)"
    and td: "to_deduct = (amount (deferred_paid_fee order) * cancel_core + deferred_fee order - 1)
                div deferred_fee order"
  shows "\<exists>db'. cancel_limit_order db order_id True False = Inr db'
    \<and> dynamic_data db' (dynamic_asset_data_id fee_asset) =
        Some (dyn\<lparr>accumulated_fees := accumulated_fees dyn + to_deduct,
                  fee_pool := fee_pool dyn + (deferred_fee order - cancel_core)\<rparr>)
    \<and> balances db' (seller order) (asset_id (deferred_paid_fee order)) =
        balances db (seller order) (asset_id (deferred_paid_fee order))
        + (if sell_asset_id order = asset_id (deferred_paid_fee order) then for_sale order else 0)
        + (amount (deferred_paid_fee order) - to_deduct)
    \<and> last (applied_operations db') =
        Limit_order_cancel (limit_id order) (seller order)
          \<lparr>amount = to_deduct, asset_id = asset_id (deferred_paid_fee order)\<rparr>
    \<and> list_all (\<lambda>b. limit_id b \<noteq> order_id) (limit_orders db')"
proof -
  have c0: "0 < cancel_core" "cancel_core \<le> deferred_fee order"
    using cc cf df by auto
  note a = cancel_fee_amount(2,3)[OF pf c0 df(2)]
  have t: "0 \<le> to_deduct" "to_deduct \<le> amount (deferred_paid_fee order)"
    using a td by simp_all
  note d = deduct_cancel_fee_non_core[OF st fa dd df pf cf cc td]
  show ?thesis
    unfolding cancel_limit_order_def Let_def
    using g d t fs fa pf
    by (simp add: modify_account_stats_def modify_dynamic_data_def get_asset_def
        get_dynamic_data_def lookup_def adjust_balance_def amount_for_sale_def
        sell_asset_id_def push_applied_operation_def remove_obj_def list_all_iff)
qed

text \<open>
  Witness for C9, scenario 6 of the specification: a deferred fee of 100 core paid with 50
  units of asset 2 and a cancel fee of 30 core give 15 units to the accumulated fees of
  asset 2, 35 units back to the seller (with the 500 units for sale), 70 core to the fee pool
  and a fee of 15 units of asset 2 in the virtual operation.
\<close>

theorem cancel_limit_order_non_core_fee_witness:
  "\<exists>db'. cancel_limit_order fee_db 7 True False = Inr db'
    \<and> dynamic_data db' 2 = Some ((mk_dyn 5000)\<lparr>accumulated_fees := 15, fee_pool := 70\<rparr>)
    \<and> balances db' 12 2 = 500 + 35
    \<and> last (applied_operations db') = Limit_order_cancel 7 12 (mk_asset 15 2)
    \<and> list_all (\<lambda>b. limit_id b \<noteq> 7) (limit_orders db')"
proof -
  have g: "get_limit_order fee_db 7 = Inr fee_order"
    by (simp add: model_defs example_defs)
  have st: "account_stats fee_db (seller fee_order) = Some plain_stats"
    by (simp add: example_defs)
  have fa: "assets fee_db (asset_id (deferred_paid_fee fee_order)) = Some other_obj"
    by (simp add: example_defs)
  have dd: "dynamic_data fee_db (dynamic_asset_data_id other_obj) = Some (mk_dyn 5000)"
    by (simp add: example_defs)
  have cc: "30 = min (cancel_fee fee_db) (deferred_fee fee_order)"
    by (simp add: example_defs)
  have td: "15 = (amount (deferred_paid_fee fee_order) * 30 + deferred_fee fee_order - 1)
                div deferred_fee fee_order"
    by (simp add: example_defs)
  from cancel_limit_order_non_core_fee[OF g st fa dd _ _ _ _ _ _ cc td]
  show ?thesis
    by (simp add: example_defs sell_asset_id_def)
qed

section \<open>asset_settle after a global settlement (C7)\<close>

lemma ebind_eq_Inl: "(ebind m f = Inl e) = (m = Inl e \<or> (\<exists>x. m = Inr x \<and> f x = Inl e))"
  by (cases m) simp_all

lemma FC_ASSERT_eq_Inl [simp]: "(FC_ASSERT c e = Inl e') = (\<not> c \<and> e' = e)"
  by (auto simp: FC_ASSERT_def)

text \<open>Only the settle evaluator raises the too-small error.\<close>

lemma lookup_not_small [simp]: "lookup m k \<noteq> Inl Settle_amount_too_small"
  by (simp add: lookup_def split: option.splits)

lemma calculate_percent_not_small [simp]: "calculate_percent v p \<noteq> Inl Settle_amount_too_small"
  by (simp add: calculate_percent_def Let_def ebind_eq_Inl)

lemma asset_ops_not_small [simp]:
  "asset_sub a b \<noteq> Inl Settle_amount_too_small"
  "asset_add a b \<noteq> Inl Settle_amount_too_small"
  "asset_le a b \<noteq> Inl Settle_amount_too_small"
  "asset_lt a b \<noteq> Inl Settle_amount_too_small"
  "asset_mul a p \<noteq> Inl Settle_amount_too_small"
  "multiply_and_round_up a p \<noteq> Inl Settle_amount_too_small"
  by (simp_all add: asset_sub_def asset_add_def asset_le_def asset_lt_def asset_mul_def
      multiply_and_round_up_def Let_def)

lemma adjust_balance_not_small [simp]: "adjust_balance db a d \<noteq> Inl Settle_amount_too_small"
  by (simp add: adjust_balance_def)

lemma modify_not_small [simp]:
  "modify_dynamic_data db a f \<noteq> Inl Settle_amount_too_small"
  "modify_bitasset_data db a g \<noteq> Inl Settle_amount_too_small"
  "modify_account_stats db i h \<noteq> Inl Settle_amount_too_small"
  "get_asset db k \<noteq> Inl Settle_amount_too_small"
  "get_dynamic_data db a \<noteq> Inl Settle_amount_too_small"
  "get_bitasset_data db a \<noteq> Inl Settle_amount_too_small"
  by (simp_all add: modify_dynamic_data_def modify_bitasset_data_def modify_account_stats_def
      get_asset_def get_dynamic_data_def get_bitasset_data_def ebind_eq_Inl split: option.splits)

lemma calculate_market_fee_not_small [simp]:
  "calculate_market_fee a r m \<noteq> Inl Settle_amount_too_small"
  by (simp add: calculate_market_fee_def Let_def ebind_eq_Inl)

lemma pay_network_fees_not_small [simp]:
  "pay_network_fees db a f \<noteq> Inl Settle_amount_too_small"
  by (simp add: pay_network_fees_def Let_def ebind_eq_Inl)

lemma pay_rewards_not_small [simp]:
  "pay_rewards db s a f \<noteq> Inl Settle_amount_too_small"
  by (simp add: pay_rewards_def Let_def ebind_eq_Inl split: option.splits prod.splits)

lemma pay_market_fees_not_small [simp]:
  "pay_market_fees db s a r m \<noteq> Inl Settle_amount_too_small"
  by (simp add: pay_market_fees_def Let_def ebind_eq_Inl split: prod.splits)

text \<open>What the fee engine leaves alone.\<close>

lemma fee_frame_refl [simp]: "fee_frame db db"
  by (simp add: fee_frame_def)

lemma fee_frame_trans: "fee_frame db db1 \<Longrightarrow> fee_frame db1 db2 \<Longrightarrow> fee_frame db db2"
  unfolding fee_frame_def
proof -
  assume a: "db1 = db\<lparr>dynamic_data := dynamic_data db1, market_fee_vesting := market_fee_vesting db1\<rparr>"
    and b: "db2 = db1\<lparr>dynamic_data := dynamic_data db2, market_fee_vesting := market_fee_vesting db2\<rparr>"
  have "db2 = (db\<lparr>dynamic_data := dynamic_data db1, market_fee_vesting := market_fee_vesting db1\<rparr>)
      \<lparr>dynamic_data := dynamic_data db2, market_fee_vesting := market_fee_vesting db2\<rparr>"
    by (subst b, subst a) simp
  then show "db2 = db\<lparr>dynamic_data := dynamic_data db2, market_fee_vesting := market_fee_vesting db2\<rparr>"
    by simp
qed

lemma fee_frame_fields:
  assumes "fee_frame db db'"
  shows "balances db' = balances db" "bitasset_data db' = bitasset_data db"
    "limit_orders db' = limit_orders db" "call_orders db' = call_orders db"
    "settle_orders db' = settle_orders db" "assets db' = assets db"
    "accounts db' = accounts db" "account_stats db' = account_stats db"
    "applied_operations db' = applied_operations db" "cancel_fee db' = cancel_fee db"
    "maker_fee_discount_percent db' = maker_fee_discount_percent db"
    "cashback_vesting_threshold db' = cashback_vesting_threshold db"
    "authorized_asset db' = authorized_asset db"
    "market_fee_network_percent db' = market_fee_network_percent db"
proof -
  from assms have e: "db' = db\<lparr>dynamic_data := dynamic_data db', market_fee_vesting := market_fee_vesting db'\<rparr>"
    by (simp add: fee_frame_def)
  show "balances db' = balances db" by (subst e) simp
  show "bitasset_data db' = bitasset_data db" by (subst e) simp
  show "limit_orders db' = limit_orders db" by (subst e) simp
  show "call_orders db' = call_orders db" by (subst e) simp
  show "settle_orders db' = settle_orders db" by (subst e) simp
  show "assets db' = assets db" by (subst e) simp
  show "accounts db' = accounts db" by (subst e) simp
  show "account_stats db' = account_stats db" by (subst e) simp
  show "applied_operations db' = applied_operations db" by (subst e) simp
  show "cancel_fee db' = cancel_fee db" by (subst e) simp
  show "maker_fee_discount_percent db' = maker_fee_discount_percent db" by (subst e) simp
  show "cashback_vesting_threshold db' = cashback_vesting_threshold db" by (subst e) simp
  show "authorized_asset db' = authorized_asset db" by (subst e) simp
  show "market_fee_network_percent db' = market_fee_network_percent db" by (subst e) simp
qed

lemma modify_dynamic_data_frame:
  "modify_dynamic_data db a f = Inr db' \<Longrightarrow> fee_frame db db'"
  by (auto simp: modify_dynamic_data_def ebind_eq_Inr fee_frame_def)

lemma deposit_frame [simp]: "fee_frame db (deposit_market_fee_vesting_balance db a x)"
  by (simp add: deposit_market_fee_vesting_balance_def fee_frame_def)

lemma deposit_frame' : "fee_frame db db1 \<Longrightarrow> fee_frame db (deposit_market_fee_vesting_balance db1 a x)"
  by (erule fee_frame_trans) simp

lemma pay_network_fees_frame:
  "pay_network_fees db a f = Inr (r, db') \<Longrightarrow> fee_frame db db'"
  unfolding pay_network_fees_def Let_def
  by (auto simp: ebind_eq_Inr split: if_splits)

lemma pay_rewards_frame:
  "pay_rewards db s a f = Inr (r, db') \<Longrightarrow> fee_frame db db'"
  unfolding pay_rewards_def Let_def
  by (auto simp: ebind_eq_Inr deposit_frame' split: if_splits option.splits prod.splits)

lemma pay_market_fees_frame:
  assumes "pay_market_fees db s a r m = Inr (fee, db')"
  shows "fee_frame db db'"
  using assms unfolding pay_market_fees_def
  apply (elim ebindE)
  apply (clarsimp split: if_splits prod.splits)
   apply (elim ebindE)
   apply (clarsimp split: if_splits prod.splits)
    apply (elim ebindE)
    apply clarsimp
    apply (blast intro: fee_frame_trans pay_network_fees_frame pay_rewards_frame modify_dynamic_data_frame)
   apply (blast intro: fee_frame_trans pay_network_fees_frame pay_rewards_frame)
  apply (blast intro: pay_network_fees_frame)
  done













section \<open>Limit orders: frames, fills and matches (C1)\<close>

text \<open>Which functions leave the list of limit orders alone.\<close>

lemma adjust_balance_limits:
  "adjust_balance db a d = Inr db' \<Longrightarrow> limit_orders db' = limit_orders db"
  by (auto simp: adjust_balance_def split: if_splits)

lemma modify_account_stats_limits:
  "modify_account_stats db a f = Inr db' \<Longrightarrow> limit_orders db' = limit_orders db"
  by (auto simp: modify_account_stats_def ebind_eq_Inr)

lemma modify_dynamic_data_limits:
  "modify_dynamic_data db a f = Inr db' \<Longrightarrow> limit_orders db' = limit_orders db"
  by (auto simp: modify_dynamic_data_def ebind_eq_Inr)

lemma pay_market_fees_limits:
  "pay_market_fees db s a r m = Inr (fee, db') \<Longrightarrow> limit_orders db' = limit_orders db"
  by (rule fee_frame_fields(3)[OF pay_market_fees_frame])

lemma pay_order_limits:
  "pay_order db a r p = Inr db' \<Longrightarrow> limit_orders db' = limit_orders db"
  unfolding pay_order_def
  by (elim ebindE) (simp add: modify_account_stats_limits adjust_balance_limits)

lemma process_deferred_fees_limits:
  "process_deferred_fees db order is_maker = Inr db' \<Longrightarrow> limit_orders db' = limit_orders db"
  unfolding process_deferred_fees_def Let_def
  apply ((elim ebindE | clarsimp split: if_splits prod.splits
           | simp add: modify_account_stats_limits adjust_balance_limits modify_dynamic_data_limits)+)
  done

lemma deduct_cancel_fee_limits:
  "deduct_cancel_fee db order v s = Inr (db', x) \<Longrightarrow> limit_orders db' = limit_orders db"
  unfolding deduct_cancel_fee_def Let_def
  apply ((elim ebindE | clarsimp split: if_splits prod.splits
           | simp add: modify_account_stats_limits adjust_balance_limits modify_dynamic_data_limits)+)
  done

lemma cancel_limit_order_limits:
  "cancel_limit_order db i v s = Inr db' \<Longrightarrow>
     limit_orders db' = remove_obj limit_id i (limit_orders db)"
  unfolding cancel_limit_order_def Let_def
  apply ((elim ebindE | clarsimp split: if_splits prod.splits
           | simp add: modify_account_stats_limits adjust_balance_limits modify_dynamic_data_limits
               deduct_cancel_fee_limits push_applied_operation_def)+)
  done

lemma remove_modify_limit:
  "remove_obj limit_id i
     (modify_obj limit_id i (\<lambda>b. b\<lparr>for_sale := n b, deferred_fee := 0,
         deferred_paid_fee := (deferred_paid_fee b)\<lparr>amount := 0\<rparr>\<rparr>) xs)
   = remove_obj limit_id i xs"
  by (induction xs) (auto simp: remove_obj_def modify_obj_def)

lemma maybe_cull_small_order_limits:
  "maybe_cull_small_order db i = Inr (culled, db') \<Longrightarrow>
     limit_orders db' = (if culled then remove_obj limit_id i (limit_orders db) else limit_orders db)"
  unfolding maybe_cull_small_order_def
  apply ((elim ebindE | clarsimp split: if_splits prod.splits
           | simp add: cancel_limit_order_limits)+)
  done

lemma fill_limit_order_steps:
  assumes "fill_limit_order db i pays receives cull fp m = Inr (filled, db')"
  obtains order seller_obj recv_asset issuer_fees db1 net db2 db4 where
      "get_limit_order db i = Inr order"
      "asset_id (amount_for_sale order) = asset_id pays" "asset_id pays \<noteq> asset_id receives"
      "pay_market_fees db (Some seller_obj) recv_asset receives m = Inr (issuer_fees, db1)"
      "asset_sub receives issuer_fees = Inr net"
      "pay_order db1 (seller order) net pays = Inr db2"
      "process_deferred_fees
          (push_applied_operation db2
             (Fill_order (Limit_order i) (seller order) pays receives issuer_fees fp m)) order m
        = Inr db4"
      "(if pays = amount_for_sale order then
          Inr (True, db4\<lparr>limit_orders := remove_obj limit_id i (limit_orders db4)\<rparr>)
        else if cull then
          maybe_cull_small_order
            (db4\<lparr>limit_orders := modify_obj limit_id i
               (\<lambda>b. b\<lparr>for_sale := for_sale b - amount pays, deferred_fee := 0,
                       deferred_paid_fee := (deferred_paid_fee b)\<lparr>amount := 0\<rparr>\<rparr>)
               (limit_orders db4)\<rparr>) i
        else Inr (False, db4\<lparr>limit_orders := modify_obj limit_id i
               (\<lambda>b. b\<lparr>for_sale := for_sale b - amount pays, deferred_fee := 0,
                       deferred_paid_fee := (deferred_paid_fee b)\<lparr>amount := 0\<rparr>\<rparr>)
               (limit_orders db4)\<rparr>)) = Inr (filled, db')"
proof -
  note r = that
  from assms show thesis
    unfolding fill_limit_order_def Let_def
    apply (elim ebindE)
    apply (simp only: FC_ASSERT_eq_Inr lookup_eq_Inr split: prod.splits)
    apply (elim exE conjE ebindE)
    apply (rule r; assumption)
    done
qed

lemma fill_limit_order_limits:
  assumes "fill_limit_order db i pays receives cull fp m = Inr (filled, db')"
  shows "limit_orders db' =
    (if filled then remove_obj limit_id i (limit_orders db)
     else modify_obj limit_id i
            (\<lambda>b. b\<lparr>for_sale := for_sale b - amount pays, deferred_fee := 0,
                    deferred_paid_fee := (deferred_paid_fee b)\<lparr>amount := 0\<rparr>\<rparr>)
            (limit_orders db))"
proof -
  from assms obtain order seller_obj recv_asset issuer_fees db1 net db2 db4
    where pm: "pay_market_fees db (Some seller_obj) recv_asset receives m = Inr (issuer_fees, db1)"
      and po: "pay_order db1 (seller order) net pays = Inr db2"
      and pd: "process_deferred_fees
          (push_applied_operation db2
             (Fill_order (Limit_order i) (seller order) pays receives issuer_fees fp m)) order m
        = Inr db4"
      and fin: "(if pays = amount_for_sale order then
          Inr (True, db4\<lparr>limit_orders := remove_obj limit_id i (limit_orders db4)\<rparr>)
        else if cull then
          maybe_cull_small_order
            (db4\<lparr>limit_orders := modify_obj limit_id i
               (\<lambda>b. b\<lparr>for_sale := for_sale b - amount pays, deferred_fee := 0,
                       deferred_paid_fee := (deferred_paid_fee b)\<lparr>amount := 0\<rparr>\<rparr>)
               (limit_orders db4)\<rparr>) i
        else Inr (False, db4\<lparr>limit_orders := modify_obj limit_id i
               (\<lambda>b. b\<lparr>for_sale := for_sale b - amount pays, deferred_fee := 0,
                       deferred_paid_fee := (deferred_paid_fee b)\<lparr>amount := 0\<rparr>\<rparr>)
               (limit_orders db4)\<rparr>)) = Inr (filled, db')"
    by (rule fill_limit_order_steps)
  have l4: "limit_orders db4 = limit_orders db"
    using pay_market_fees_limits[OF pm] pay_order_limits[OF po] process_deferred_fees_limits[OF pd]
    by (simp add: push_applied_operation_def)
  show ?thesis
  proof (cases "pays = amount_for_sale order")
    case True
    with fin l4 show ?thesis by auto
  next
    case False
    note nf = this
    show ?thesis
    proof (cases cull)
      case True
      with fin nf have mc: "maybe_cull_small_order
            (db4\<lparr>limit_orders := modify_obj limit_id i
               (\<lambda>b. b\<lparr>for_sale := for_sale b - amount pays, deferred_fee := 0,
                       deferred_paid_fee := (deferred_paid_fee b)\<lparr>amount := 0\<rparr>\<rparr>)
               (limit_orders db4)\<rparr>) i = Inr (filled, db')" by simp
      from maybe_cull_small_order_limits[OF mc] l4 show ?thesis
        by (simp add: remove_modify_limit)
    next
      case False
      with fin nf l4 show ?thesis by auto
    qed
  qed
qed

lemma fill_limit_order_filled:
  assumes "fill_limit_order db i pays receives cull fp m = Inr (True, db')"
  shows "list_all (\<lambda>b. limit_id b \<noteq> i) (limit_orders db')"
  using fill_limit_order_limits[OF assms] by (simp add: remove_obj_def list_all_iff)

lemma fill_limit_order_keeps_absent:
  assumes "fill_limit_order db i pays receives cull fp m = Inr (filled, db')"
    and "list_all (\<lambda>b. limit_id b \<noteq> j) (limit_orders db)"
  shows "list_all (\<lambda>b. limit_id b \<noteq> j) (limit_orders db')"
  using fill_limit_order_limits[OF assms(1)] assms(2)
  by (auto simp: remove_obj_def modify_obj_def list_all_iff split: if_splits)

lemma fill_bits_simps [simp]:
  "(fill_bits t m \<noteq> 0) = (t \<or> m)" "(fill_bits t m = 0) = (\<not> t \<and> \<not> m)"
  "odd (fill_bits t m) = t" "(2 \<le> fill_bits t m) = m"
  "fill_bits t m \<le> 3"
  by (auto simp: fill_bits_def)

lemma asset_le_eq_Inr:
  "(asset_le a b = Inr r) = (asset_id a = asset_id b \<and> r = (amount a \<le> amount b))"
  by (auto simp: asset_le_def)

text \<open>The two fills at the end of \<open>match(limit, limit)\<close>.\<close>

lemma match_fills:
  assumes "ebind (fill_limit_order db usd_id usd_pays usd_receives cull match_price False)
     (\<lambda>(taker_filled, db1).
        ebind (fill_limit_order db1 core_id usd_receives usd_pays True match_price True)
          (\<lambda>(maker_filled, db2).
        ebind (FC_ASSERT (fill_bits taker_filled maker_filled \<noteq> 0) No_side_filled) (\<lambda>_.
          Inr (fill_bits taker_filled maker_filled, db2)))) = Inr (result, db')"
  shows "\<exists>taker_filled db1 maker_filled.
      fill_limit_order db usd_id usd_pays usd_receives cull match_price False = Inr (taker_filled, db1)
    \<and> fill_limit_order db1 core_id usd_receives usd_pays True match_price True = Inr (maker_filled, db')
    \<and> result = fill_bits taker_filled maker_filled \<and> (taker_filled \<or> maker_filled)
    \<and> (taker_filled \<longrightarrow> list_all (\<lambda>b. limit_id b \<noteq> usd_id) (limit_orders db'))
    \<and> (maker_filled \<longrightarrow> list_all (\<lambda>b. limit_id b \<noteq> core_id) (limit_orders db'))"
proof -
  from assms obtain taker_filled db1 maker_filled where
    f1: "fill_limit_order db usd_id usd_pays usd_receives cull match_price False = Inr (taker_filled, db1)"
    and f2: "fill_limit_order db1 core_id usd_receives usd_pays True match_price True = Inr (maker_filled, db')"
    and r: "result = fill_bits taker_filled maker_filled" "taker_filled \<or> maker_filled"
    apply (elim ebindE)
    apply (simp only: split: prod.splits)
    apply (elim exE conjE ebindE)
    apply (simp only: split: prod.splits)
    apply (elim exE conjE ebindE)
    apply (simp add: FC_ASSERT_def split: if_splits)
    done
  have "list_all (\<lambda>b. limit_id b \<noteq> usd_id) (limit_orders db')" if taker_filled
    using fill_limit_order_keeps_absent[OF f2 fill_limit_order_filled] f1 that by simp
  moreover have "list_all (\<lambda>b. limit_id b \<noteq> core_id) (limit_orders db')" if maker_filled
    using fill_limit_order_filled f2 that by simp
  ultimately show ?thesis using f1 f2 r by blast
qed

text \<open>
  C1. When \<open>match(taker, maker, match_price)\<close> returns, both amounts for sale are
  positive and, with \<open>maker_for_sale * match_price\<close> rounded down:
  if \<open>taker_for_sale\<close> is at most that amount, \<open>taker_receives\<close> is
  \<open>taker_for_sale * match_price\<close> rounded down; if it is zero the result is 1 and the
  store is unchanged, otherwise \<open>maker_receives = taker_receives.multiply_and_round_up\<close>
  and the taker is filled with the cull flag set; in the other branch \<open>maker_receives\<close> is
  \<open>maker_for_sale * match_price\<close> rounded down and \<open>taker_receives\<close> is
  \<open>maker_receives.multiply_and_round_up(match_price)\<close>. In both cases the taker pays
  \<open>maker_receives\<close> and the maker pays \<open>taker_receives\<close>. The result is 1, 2 or 3,
  and whenever fills were made, the taker is off the book if bit 1 is set and the maker is
  off the book if bit 2 is set.
\<close>

theorem match_limit_limit_result:
  assumes m: "match_limit_limit db usd_id core_id match_price = Inr (result, db')"
    and u: "get_limit_order db usd_id = Inr usd"
    and c: "get_limit_order db core_id = Inr core"
  shows "0 < for_sale usd \<and> 0 < for_sale core
    \<and> (\<exists>core_at_match.
          asset_mul (amount_for_sale core) match_price = Inr core_at_match
        \<and> (if for_sale usd \<le> amount core_at_match then
             (\<exists>usd_receives.
                asset_mul (amount_for_sale usd) match_price = Inr usd_receives
              \<and> (if amount usd_receives = 0 then result = 1 \<and> db' = db
                  else \<exists>core_receives taker_filled db1 maker_filled.
                      multiply_and_round_up usd_receives match_price = Inr core_receives
                    \<and> fill_limit_order db usd_id core_receives usd_receives True match_price False
                        = Inr (taker_filled, db1)
                    \<and> fill_limit_order db1 core_id usd_receives core_receives True match_price True
                        = Inr (maker_filled, db')
                    \<and> result = fill_bits taker_filled maker_filled
                    \<and> (taker_filled \<longrightarrow> list_all (\<lambda>b. limit_id b \<noteq> usd_id) (limit_orders db'))
                    \<and> (maker_filled \<longrightarrow> list_all (\<lambda>b. limit_id b \<noteq> core_id) (limit_orders db'))))
           else
             (\<exists>usd_receives taker_filled db1 maker_filled.
                multiply_and_round_up core_at_match match_price = Inr usd_receives
              \<and> fill_limit_order db usd_id core_at_match usd_receives False match_price False
                  = Inr (taker_filled, db1)
              \<and> fill_limit_order db1 core_id usd_receives core_at_match True match_price True
                  = Inr (maker_filled, db')
              \<and> result = fill_bits taker_filled maker_filled
              \<and> (taker_filled \<longrightarrow> list_all (\<lambda>b. limit_id b \<noteq> usd_id) (limit_orders db'))
              \<and> (maker_filled \<longrightarrow> list_all (\<lambda>b. limit_id b \<noteq> core_id) (limit_orders db')))))
    \<and> 1 \<le> result \<and> result \<le> 3"
proof -
  from m u c obtain core_at_match taker_smaller where
    pos: "0 < for_sale usd" "0 < for_sale core"
    and cm: "asset_mul (amount_for_sale core) match_price = Inr core_at_match"
    and le: "asset_le (amount_for_sale usd) core_at_match = Inr taker_smaller"
    and rest: "(if taker_smaller then
        ebind (asset_mul (amount_for_sale usd) match_price) (\<lambda>usd_receives.
          if amount usd_receives = 0 then Inr (1, db)
          else
            ebind (multiply_and_round_up usd_receives match_price) (\<lambda>core_receives.
            ebind (fill_limit_order db usd_id core_receives usd_receives True match_price False)
              (\<lambda>(taker_filled, db1).
            ebind (fill_limit_order db1 core_id usd_receives core_receives True match_price True)
              (\<lambda>(maker_filled, db2).
            ebind (FC_ASSERT (fill_bits taker_filled maker_filled \<noteq> 0) No_side_filled) (\<lambda>_.
              Inr (fill_bits taker_filled maker_filled, db2))))))
      else
        ebind (asset_mul (amount_for_sale core) match_price) (\<lambda>core_receives.
        ebind (multiply_and_round_up core_receives match_price) (\<lambda>usd_receives.
        ebind (fill_limit_order db usd_id core_receives usd_receives False match_price False)
          (\<lambda>(taker_filled, db1).
        ebind (fill_limit_order db1 core_id usd_receives core_receives True match_price True)
          (\<lambda>(maker_filled, db2).
        ebind (FC_ASSERT (fill_bits taker_filled maker_filled \<noteq> 0) No_side_filled) (\<lambda>_.
          Inr (fill_bits taker_filled maker_filled, db2))))))) = Inr (result, db')"
    unfolding match_limit_limit_def Let_def
    apply (elim ebindE)
    apply (simp only: FC_ASSERT_eq_Inr sum.inject)
    done
  from le have ts: "taker_smaller = (for_sale usd \<le> amount core_at_match)"
    by (simp add: asset_le_eq_Inr amount_for_sale_def)
  show ?thesis
  proof (cases taker_smaller)
    case True
    with rest obtain usd_receives where
      ur: "asset_mul (amount_for_sale usd) match_price = Inr usd_receives"
      and rest2: "(if amount usd_receives = 0 then Inr (1, db)
          else
            ebind (multiply_and_round_up usd_receives match_price) (\<lambda>core_receives.
            ebind (fill_limit_order db usd_id core_receives usd_receives True match_price False)
              (\<lambda>(taker_filled, db1).
            ebind (fill_limit_order db1 core_id usd_receives core_receives True match_price True)
              (\<lambda>(maker_filled, db2).
            ebind (FC_ASSERT (fill_bits taker_filled maker_filled \<noteq> 0) No_side_filled) (\<lambda>_.
              Inr (fill_bits taker_filled maker_filled, db2)))))) = Inr (result, db')"
      by (simp only: if_True) (erule ebindE)
    show ?thesis
    proof (cases "amount usd_receives = 0")
      case True
      with rest2 have "result = 1" "db' = db" by simp_all
      with pos cm ts \<open>taker_smaller\<close> ur True show ?thesis by auto
    next
      case False
      with rest2 obtain core_receives where
        cr: "multiply_and_round_up usd_receives match_price = Inr core_receives"
        and fills: "ebind (fill_limit_order db usd_id core_receives usd_receives True match_price False)
              (\<lambda>(taker_filled, db1).
            ebind (fill_limit_order db1 core_id usd_receives core_receives True match_price True)
              (\<lambda>(maker_filled, db2).
            ebind (FC_ASSERT (fill_bits taker_filled maker_filled \<noteq> 0) No_side_filled) (\<lambda>_.
              Inr (fill_bits taker_filled maker_filled, db2)))) = Inr (result, db')"
        by (simp only: if_False) (erule ebindE)
      from match_fills[OF fills] obtain taker_filled db1 maker_filled where
        f: "fill_limit_order db usd_id core_receives usd_receives True match_price False = Inr (taker_filled, db1)"
          "fill_limit_order db1 core_id usd_receives core_receives True match_price True = Inr (maker_filled, db')"
          "result = fill_bits taker_filled maker_filled" "taker_filled \<or> maker_filled"
          "taker_filled \<longrightarrow> list_all (\<lambda>b. limit_id b \<noteq> usd_id) (limit_orders db')"
          "maker_filled \<longrightarrow> list_all (\<lambda>b. limit_id b \<noteq> core_id) (limit_orders db')"
        by blast
      have rng: "1 \<le> result" "result \<le> 3" using f(3,4) by (auto simp: fill_bits_def)
      from pos cm ts \<open>taker_smaller\<close> ur False cr f rng show ?thesis
        apply (intro conjI)
            apply assumption
           apply assumption
          apply (rule exI[of _ core_at_match])
          apply (simp only: if_True if_False simp_thms)
          apply (rule exI[of _ usd_receives])
          apply (simp only: if_True if_False simp_thms)
          apply blast
         apply assumption
        apply assumption
        done
    qed
  next
    case False
    with rest cm obtain usd_receives where
      ur: "multiply_and_round_up core_at_match match_price = Inr usd_receives"
      and fills: "ebind (fill_limit_order db usd_id core_at_match usd_receives False match_price False)
          (\<lambda>(taker_filled, db1).
        ebind (fill_limit_order db1 core_id usd_receives core_at_match True match_price True)
          (\<lambda>(maker_filled, db2).
        ebind (FC_ASSERT (fill_bits taker_filled maker_filled \<noteq> 0) No_side_filled) (\<lambda>_.
          Inr (fill_bits taker_filled maker_filled, db2)))) = Inr (result, db')"
      by (simp only: if_False ebind_Inr) (erule ebindE)
    from match_fills[OF fills] obtain taker_filled db1 maker_filled where
      f: "fill_limit_order db usd_id core_at_match usd_receives False match_price False = Inr (taker_filled, db1)"
        "fill_limit_order db1 core_id usd_receives core_at_match True match_price True = Inr (maker_filled, db')"
        "result = fill_bits taker_filled maker_filled" "taker_filled \<or> maker_filled"
        "taker_filled \<longrightarrow> list_all (\<lambda>b. limit_id b \<noteq> usd_id) (limit_orders db')"
        "maker_filled \<longrightarrow> list_all (\<lambda>b. limit_id b \<noteq> core_id) (limit_orders db')"
      by blast
    have rng: "1 \<le> result" "result \<le> 3" using f(3,4) by (auto simp: fill_bits_def)
    from pos cm ts \<open>\<not> taker_smaller\<close> ur f rng show ?thesis
      apply (intro conjI)
          apply assumption
         apply assumption
        apply (rule exI[of _ core_at_match])
        apply (simp only: if_True if_False simp_thms)
        apply blast
       apply assumption
      apply assumption
      done
  qed
qed

lemma book_match_eval:
  "\<exists>db'. match_limit_limit book_db 2 1 (mk_price 100 2 300 0) = Inr (2, db')"
  by (simp add: model_defs example_defs)

text \<open>
  Witness for C1, scenario 1 of the specification: the maker's 100 units are worth 300
  units of core at the match price, less than the taker's 600, so the maker receives 300
  units of core, the taker 100 units of asset 2, and only the maker leaves the book.
\<close>

theorem match_limit_limit_result_witness:
  "get_limit_order book_db 2 = Inr (mk_limit 2 13 600 (mk_price 600 0 200 2))
   \<and> get_limit_order book_db 1 = Inr (mk_limit 1 12 100 (mk_price 100 2 300 0))
   \<and> asset_mul (mk_asset 100 2) (mk_price 100 2 300 0) = Inr (mk_asset 300 0)
   \<and> multiply_and_round_up (mk_asset 300 0) (mk_price 100 2 300 0) = Inr (mk_asset 100 2)
   \<and> (\<exists>db'. match_limit_limit book_db 2 1 (mk_price 100 2 300 0) = Inr (2, db')
         \<and> list_all (\<lambda>b. limit_id b \<noteq> 1) (limit_orders db'))"
proof -
  have u: "get_limit_order book_db 2 = Inr (mk_limit 2 13 600 (mk_price 600 0 200 2))"
    by (simp add: model_defs example_defs)
  have c: "get_limit_order book_db 1 = Inr (mk_limit 1 12 100 (mk_price 100 2 300 0))"
    by (simp add: model_defs example_defs)
  have cm: "asset_mul (mk_asset 100 2) (mk_price 100 2 300 0) = Inr (mk_asset 300 0)"
    by (simp add: model_defs example_defs)
  have ur: "multiply_and_round_up (mk_asset 300 0) (mk_price 100 2 300 0) = Inr (mk_asset 100 2)"
    by (simp add: model_defs example_defs)
  from book_match_eval obtain db' where
    m: "match_limit_limit book_db 2 1 (mk_price 100 2 300 0) = Inr (2, db')" by blast
  have afs: "amount_for_sale (mk_limit 1 12 100 (mk_price 100 2 300 0)) = mk_asset 100 2"
    "for_sale (mk_limit 2 13 600 (mk_price 600 0 200 2)) = 600"
    by (simp_all add: amount_for_sale_def example_defs)
  from match_limit_limit_result[OF m u c] cm ur afs
  have "\<exists>taker_filled db1 maker_filled.
      (2::nat) = fill_bits taker_filled maker_filled
      \<and> (maker_filled \<longrightarrow> list_all (\<lambda>b. limit_id b \<noteq> 1) (limit_orders db'))"
    by (auto simp: mk_asset_def)
  then have "list_all (\<lambda>b. limit_id b \<noteq> 1) (limit_orders db')"
    by (auto simp: fill_bits_def split: if_splits)
  with u c cm ur m show ?thesis by blast
qed

end
